theory Spec2Isabelle
  imports Main
begin

section \<open>Strings\<close>

text \<open>
  JavaScript strings and PostgreSQL \<open>text\<close> values are modelled as \<open>string\<close>.
  \<open>split_on c s\<close> is \<open>s.split(c)\<close> for a one-character separator: it cuts at
  every occurrence of the separator and always returns at least one piece
  (the empty string gives the one-element array of the empty string).
\<close>

fun split_on :: "char \<Rightarrow> string \<Rightarrow> string list" where
  "split_on c [] = [[]]"
| "split_on c (x # xs) =
     (if x = c then [] # split_on c xs
      else (case split_on c xs of
              [] \<Rightarrow> [[x]]
            | y # ys \<Rightarrow> (x # y) # ys))"

text \<open>
  \<open>Array.prototype.pop\<close> returns the last element, or \<open>undefined\<close> on an empty
  array; a template literal renders \<open>undefined\<close> as the text \<open>undefined\<close>.
\<close>

definition pop :: "'a list \<Rightarrow> 'a option" where
  "pop xs = (if xs = [] then None else Some (last xs))"

definition template_of :: "string option \<Rightarrow> string" where
  "template_of v = (case v of None \<Rightarrow> ''undefined'' | Some s \<Rightarrow> s)"

text \<open>
  \<open>${Date.now()}\<close>: the decimal digits of a non-negative integer.
\<close>

definition digit_char :: "nat \<Rightarrow> char" where
  "digit_char d = ''0123456789'' ! (d mod 10)"

fun string_of_nat :: "nat \<Rightarrow> string" where
  "string_of_nat n =
     (if n < 10 then [digit_char n]
      else string_of_nat (n div 10) @ [digit_char (n mod 10)])"

declare string_of_nat.simps [simp del]

text \<open>\<open>s.substring(n)\<close>: the string from index \<open>n\<close> on, empty when \<open>n\<close> is past the end.\<close>

definition substring :: "nat \<Rightarrow> string \<Rightarrow> string" where
  "substring n s = drop n s"

section \<open>Storage keys (FileUpload, handleUpload lines 36-38)\<close>

text \<open>
  \<^verbatim>\<open>
  const fileExt = selectedFile.name.split('.').pop();
  const fileName = `${Date.now()}-${Math.random().toString(36).substring(7)}.${fileExt}`;
  const filePath = `${user.id}/${fileName}`;
  \<close>
  The time and random sources are arguments: \<open>now\<close> is the value of \<open>Date.now()\<close> and
  \<open>rnd\<close> the string \<open>Math.random().toString(36)\<close>.
\<close>

definition fileExt :: "string \<Rightarrow> string option" where
  "fileExt name = pop (split_on CHR ''.'' name)"

definition fileName :: "string \<Rightarrow> nat \<Rightarrow> string \<Rightarrow> string" where
  "fileName name now rnd =
     string_of_nat now @ ''-'' @ substring 7 rnd @ ''.'' @ template_of (fileExt name)"

definition filePath :: "string \<Rightarrow> string \<Rightarrow> nat \<Rightarrow> string \<Rightarrow> string" where
  "filePath uid name now rnd = uid @ ''/'' @ fileName name now rnd"

text \<open>
  The storage policies of the migration read the owner off a key with
  \<open>(storage.foldername(name))[1]\<close>: \<open>string_to_array(name, '/')\<close> without its last
  element, then the first element of what is left, \<open>NULL\<close> when there is none.
  \<open>string_to_array\<close> of the empty text is the empty array.
\<close>

definition string_to_array :: "string \<Rightarrow> char \<Rightarrow> string list" where
  "string_to_array s c = (if s = [] then [] else split_on c s)"

definition foldername :: "string \<Rightarrow> string list" where
  "foldername name = butlast (string_to_array name CHR ''/'')"

definition first_folder :: "string \<Rightarrow> string option" where
  "first_folder name = (case foldername name of [] \<Rightarrow> None | seg # _ \<Rightarrow> Some seg)"

section \<open>Owner identities\<close>

text \<open>
  Owners are rows of \<open>auth.users\<close>: \<open>user_id\<close> is a \<open>uuid\<close> column and \<open>auth.uid()\<close>
  a \<open>uuid\<close>. \<open>uuid_text\<close> holds of the text form of a uuid (\<open>auth.uid()::text\<close>, the
  client's \<open>user.id\<close>): 32 lower-case hexadecimal digits in groups of 8, 4, 4, 4 and
  12, separated by hyphens.
\<close>

definition uuid_shape :: "bool list" where
  "uuid_shape =
     replicate 8 False @ [True] @ replicate 4 False @ [True] @ replicate 4 False @ [True]
       @ replicate 4 False @ [True] @ replicate 12 False"

definition uuid_text :: "string \<Rightarrow> bool" where
  "uuid_text s =
     (list_all (\<lambda>c. c \<in> set ''0123456789abcdef-'') s
      \<and> map (\<lambda>c. c = CHR ''-'') s = uuid_shape)"

text \<open>
  A \<open>uuid\<close> value is kept as the 128-bit number it encodes. The database reads a
  uuid from text the way PostgreSQL does: an optional opening brace, sixteen bytes of
  two hexadecimal digits each, in either case, with an optional hyphen after every
  second byte but the last, the closing brace if there was an opening one, and then
  the end of the text. Any other text is refused (\<open>invalid input syntax for type
  uuid\<close>). \<open>hyphen_after\<close> says, byte by byte, whether a hyphen may follow.
\<close>

type_synonym uuid = nat

definition hex_value :: "char \<Rightarrow> nat option" where
  "hex_value c =
     map_of (zip ''0123456789abcdefABCDEF''
               [0, 1, 2, 3, 4, 5, 6, 7, 8, 9, 10, 11, 12, 13, 14, 15, 10, 11, 12, 13, 14, 15]) c"

definition hyphen_after :: "bool list" where
  "hyphen_after =
     [False, True, False, True, False, True, False, True,
      False, True, False, True, False, True, False, False]"

fun uuid_bytes :: "bool list \<Rightarrow> string \<Rightarrow> (nat list \<times> string) option" where
  "uuid_bytes [] src = Some ([], src)"
| "uuid_bytes (hyphen # plan) (c1 # c2 # src) =
     (case (hex_value c1, hex_value c2) of
        (Some h, Some l) \<Rightarrow>
          (case uuid_bytes plan (if hyphen \<and> take 1 src = ''-'' then drop 1 src else src) of
             None \<Rightarrow> None
           | Some (bytes, rest) \<Rightarrow> Some ((16 * h + l) # bytes, rest))
      | _ \<Rightarrow> None)"
| "uuid_bytes (hyphen # plan) src = None"

definition uuid_in :: "string \<Rightarrow> uuid option" where
  "uuid_in s =
     (let braces = (take 1 s = ''{'');
          src = (if braces then drop 1 s else s)
      in case uuid_bytes hyphen_after src of
           None \<Rightarrow> None
         | Some (bytes, rest) \<Rightarrow>
             if rest = (if braces then ''}'' else [])
             then Some (foldl (\<lambda>a b. 256 * a + b) 0 bytes)
             else None)"

text \<open>
  \<open>uuid_out\<close> is the text of a uuid (\<open>auth.uid()::text\<close>): its 32 hexadecimal digits
  in lower case, most significant first, in groups of 8, 4, 4, 4 and 12.
\<close>

definition hex_char :: "nat \<Rightarrow> char" where
  "hex_char d = ''0123456789abcdef'' ! (d mod 16)"

definition hex_group :: "uuid \<Rightarrow> nat list \<Rightarrow> string" where
  "hex_group w positions = map (\<lambda>k. hex_char (w div 16 ^ k)) positions"

definition uuid_out :: "uuid \<Rightarrow> string" where
  "uuid_out w =
     hex_group w [31, 30, 29, 28, 27, 26, 25, 24] @ ''-''
       @ hex_group w [23, 22, 21, 20] @ ''-''
       @ hex_group w [19, 18, 17, 16] @ ''-''
       @ hex_group w [15, 14, 13, 12] @ ''-''
       @ hex_group w [11, 10, 9, 8, 7, 6, 5, 4, 3, 2, 1, 0]"

section \<open>Data model\<close>

text \<open>
  A browser \<open>File\<close> as the upload component reads it: \<open>name\<close>, \<open>size\<close> (bytes)
  and \<open>type\<close> (MIME type, empty when unknown). The payload itself is not inspected
  by the code; the blob store keeps the \<open>File\<close> as a whole.
\<close>

record File =
  name :: string
  size_file :: nat
  type_file :: string

text \<open>
  A row of table \<open>files\<close> (\<open>FileRecord\<close> on the client). \<open>id\<close> and \<open>user_id\<close>
  are \<open>uuid\<close> columns, \<open>file_size\<close> is a \<open>bigint\<close>, \<open>created_at\<close> a
  \<open>timestamptz\<close>, kept as the number of microseconds it counts. The client holds
  the two uuids in their text form; the handlers pass \<open>file.id\<close> back to the database
  as they got it, which is modelled by passing the uuid.
\<close>

record FileRecord =
  id_rec :: uuid
  user_id :: uuid
  filename :: string
  file_path :: string
  file_size :: int
  mime_type :: string
  created_at :: int

text \<open>
  The signed-in user as the client holds it: \<open>user.id\<close> is a JavaScript string, the
  text of the user's uuid when it comes from the identity provider.
\<close>

record User =
  id_user :: string
  email :: string

text \<open>
  An error object of the backend client. The handlers only look at whether it is an
  instance of \<open>Error\<close> and at its \<open>message\<close>.
\<close>

datatype js_error = JsError (instanceof_Error: bool) (message: string)

definition error_text :: "js_error \<Rightarrow> string \<Rightarrow> string" where
  \<comment> \<open>\<open>err instanceof Error ? err.message : dflt\<close>\<close>
  "error_text err dflt = (if instanceof_Error err then message err else dflt)"

section \<open>The backend: table \<open>files\<close> and bucket \<open>user-files\<close>\<close>

text \<open>
  The values of an insert into \<open>files\<close> as the client sends them; \<open>id\<close> and
  \<open>created_at\<close> are left to the column defaults.
\<close>

record insert_values =
  ins_user_id :: string
  ins_filename :: string
  ins_file_path :: string
  ins_file_size :: int
  ins_mime_type :: string

datatype backend_call =
    Storage_upload string File
  | Storage_remove "string list"
  | Files_select string
  | Files_insert insert_values
  | Files_delete uuid

text \<open>
  The state of the two stores: the rows of \<open>files\<close> in the order the table holds
  them, the objects of bucket \<open>user-files\<close> by name, and the requests received so far,
  oldest first.
\<close>

record backend =
  files_table :: "FileRecord list"
  objects :: "string \<rightharpoonup> File"
  calls :: "backend_call list"

definition log_call :: "backend_call \<Rightarrow> backend \<Rightarrow> backend" where
  "log_call c b = b\<lparr>calls := calls b @ [c]\<rparr>"

text \<open>
  Row-level security of the migration. \<open>auth_uid\<close> is \<open>auth.uid()\<close>, the identity the
  backend resolves from the request, \<open>None\<close> for a request that is not authenticated
  (the policies are granted \<open>TO authenticated\<close> only, and a table with row-level
  security enabled shows nothing to a role without a policy).
  \<^verbatim>\<open>
  CREATE POLICY "Users can view own files"   ON files FOR SELECT USING (auth.uid() = user_id);
  CREATE POLICY "Users can insert own files" ON files FOR INSERT WITH CHECK (auth.uid() = user_id);
  CREATE POLICY "Users can delete own files" ON files FOR DELETE USING (auth.uid() = user_id);
  \<close>
\<close>

definition files_select_policy :: "uuid option \<Rightarrow> FileRecord \<Rightarrow> bool" where
  "files_select_policy auth_uid r = (auth_uid = Some (user_id r))"

definition files_insert_policy :: "uuid option \<Rightarrow> FileRecord \<Rightarrow> bool" where
  "files_insert_policy auth_uid r = (auth_uid = Some (user_id r))"

definition files_delete_policy :: "uuid option \<Rightarrow> FileRecord \<Rightarrow> bool" where
  "files_delete_policy auth_uid r = (auth_uid = Some (user_id r))"

text \<open>
  The three policies on \<open>storage.objects\<close> share one condition:
  \<^verbatim>\<open>bucket_id = 'user-files' AND (storage.foldername(name))[1] = auth.uid()::text\<close>
  The client addresses bucket \<open>user-files\<close> only, which is the bucket modelled.
\<close>

definition objects_policy :: "uuid option \<Rightarrow> string \<Rightarrow> bool" where
  "objects_policy auth_uid path =
     (case auth_uid of
        None \<Rightarrow> False
      | Some w \<Rightarrow> first_folder path = Some (uuid_out w))"

text \<open>
  The errors with which the backend itself refuses a request. Their texts are the
  backend's, not this repository's; no property below depends on them.
\<close>

definition policy_violation :: js_error where
  "policy_violation = JsError True ''new row violates row-level security policy''"

definition already_exists :: js_error where
  "already_exists = JsError True ''The resource already exists''"

definition duplicate_key :: js_error where
  "duplicate_key = JsError True ''duplicate key value violates unique constraint''"

definition invalid_uuid :: js_error where
  "invalid_uuid = JsError True ''invalid input syntax for type uuid''"

text \<open>
  Every request takes a \<open>fault\<close>: \<open>Some e\<close> when the request fails with \<open>e\<close> before the
  backend carries it out (network, quota, outage), \<open>None\<close> when the backend processes
  it. A processed request follows PostgreSQL's rules: a \<open>USING\<close> policy hides rows
  silently, a \<open>WITH CHECK\<close> policy raises an error.

  \<open>storage.from('user-files').upload(path, file, {upsert: false})\<close>
\<close>

definition storage_upload ::
  "uuid option \<Rightarrow> js_error option \<Rightarrow> string \<Rightarrow> File \<Rightarrow> backend
     \<Rightarrow> js_error option \<times> backend" where
  "storage_upload auth_uid fault path file b =
     (let b1 = log_call (Storage_upload path file) b in
      case fault of
        Some e \<Rightarrow> (Some e, b1)
      | None \<Rightarrow>
          if \<not> objects_policy auth_uid path then (Some policy_violation, b1)
          else if objects b1 path \<noteq> None then (Some already_exists, b1)
          else (None, b1\<lparr>objects := (objects b1)(path \<mapsto> file)\<rparr>))"

text \<open>
  \<open>storage.from('user-files').remove(paths)\<close>: deletes the named objects the caller
  may delete; a name that is absent or hidden by the policy is skipped without error.
\<close>

definition storage_remove ::
  "uuid option \<Rightarrow> js_error option \<Rightarrow> string list \<Rightarrow> backend
     \<Rightarrow> js_error option \<times> backend" where
  "storage_remove auth_uid fault paths b =
     (let b1 = log_call (Storage_remove paths) b in
      case fault of
        Some e \<Rightarrow> (Some e, b1)
      | None \<Rightarrow>
          (None, b1\<lparr>objects :=
             (\<lambda>k. if k \<in> set paths \<and> objects_policy auth_uid k then None else objects b1 k)\<rparr>))"

text \<open>
  \<open>ORDER BY created_at DESC\<close>. SQL leaves the order of rows with equal
  \<open>created_at\<close> open; the model keeps them in the order the table holds them.
\<close>

definition order_created_at_desc :: "FileRecord list \<Rightarrow> FileRecord list" where
  "order_created_at_desc rows = sort_key (\<lambda>r. - created_at r) rows"

text \<open>
  \<open>from('files').select('*').eq('user_id', uid).order('created_at', {ascending: false})\<close>,
  answered with \<open>(data, error)\<close>. The value of the \<open>eq\<close> filter arrives as text and
  is read as a \<open>uuid\<close>, the type of the column: a text that is not a uuid makes the
  query fail, and two texts of one uuid select the same rows.
\<close>

definition files_select ::
  "uuid option \<Rightarrow> js_error option \<Rightarrow> string \<Rightarrow> backend
     \<Rightarrow> (FileRecord list option \<times> js_error option) \<times> backend" where
  "files_select auth_uid fault uid b =
     (let b1 = log_call (Files_select uid) b in
      case fault of
        Some e \<Rightarrow> ((None, Some e), b1)
      | None \<Rightarrow>
          (case uuid_in uid of
             None \<Rightarrow> ((None, Some invalid_uuid), b1)
           | Some w \<Rightarrow>
               ((Some (order_created_at_desc
                         (filter (\<lambda>r. files_select_policy auth_uid r \<and> user_id r = w)
                            (files_table b1))), None), b1)))"

text \<open>
  \<open>from('files').insert(values)\<close>. The \<open>user_id\<close> of the values is read as a
  \<open>uuid\<close>, \<open>w\<close> below. \<open>new_id\<close> is the value of \<open>gen_random_uuid()\<close> and \<open>at\<close>
  that of \<open>now()\<close> for the new row. The foreign key of \<open>user_id\<close> holds for every
  identity that passes the policy, since \<open>auth.uid()\<close> is a row of \<open>auth.users\<close>.
\<close>

definition new_row :: "insert_values \<Rightarrow> uuid \<Rightarrow> uuid \<Rightarrow> int \<Rightarrow> FileRecord" where
  "new_row v w new_id at =
     \<lparr>id_rec = new_id, user_id = w, filename = ins_filename v,
      file_path = ins_file_path v, file_size = ins_file_size v,
      mime_type = ins_mime_type v, created_at = at\<rparr>"

definition files_insert ::
  "uuid option \<Rightarrow> js_error option \<Rightarrow> insert_values \<Rightarrow> uuid \<Rightarrow> int \<Rightarrow> backend
     \<Rightarrow> js_error option \<times> backend" where
  "files_insert auth_uid fault v new_id at b =
     (let b1 = log_call (Files_insert v) b in
      case fault of
        Some e \<Rightarrow> (Some e, b1)
      | None \<Rightarrow>
          (case uuid_in (ins_user_id v) of
             None \<Rightarrow> (Some invalid_uuid, b1)
           | Some w \<Rightarrow>
               if \<not> files_insert_policy auth_uid (new_row v w new_id at)
               then (Some policy_violation, b1)
               else if new_id \<in> set (map id_rec (files_table b1))
               then (Some duplicate_key, b1)
               else (None, b1\<lparr>files_table := files_table b1 @ [new_row v w new_id at]\<rparr>)))"

text \<open>\<open>from('files').delete().eq('id', i)\<close>\<close>

definition files_delete ::
  "uuid option \<Rightarrow> js_error option \<Rightarrow> uuid \<Rightarrow> backend \<Rightarrow> js_error option \<times> backend" where
  "files_delete auth_uid fault i b =
     (let b1 = log_call (Files_delete i) b in
      case fault of
        Some e \<Rightarrow> (Some e, b1)
      | None \<Rightarrow>
          (None, b1\<lparr>files_table :=
             filter (\<lambda>r. \<not> (files_delete_policy auth_uid r \<and> id_rec r = i))
               (files_table b1)\<rparr>))"

section \<open>The upload component (FileUpload)\<close>

text \<open>
  The component's state: \<open>selectedFile\<close>, \<open>uploading\<close>, \<open>error\<close>, and the value of the
  file input element behind \<open>fileInputRef\<close> (\<open>None\<close> while the ref is not attached).
  What a handler tells its parent or the user is returned as a list of events.
\<close>

record FileUpload_state =
  selectedFile :: "File option"
  uploading :: bool
  error_upload :: string
  fileInput :: "string option"

datatype ui_event = OnUploadComplete | OnRefresh | Alert string

text \<open>The state the component starts in (\<open>useState(null)\<close>, \<open>useState(false)\<close>, \<open>useState('')\<close>).\<close>

definition FileUpload_init :: FileUpload_state where
  "FileUpload_init =
     \<lparr>selectedFile = None, uploading = False, error_upload = [], fileInput = Some []\<rparr>"

text \<open>
  \<^verbatim>\<open>
  const file = e.target.files?.[0];
  if (file) {
    if (file.size > 50 * 1024 * 1024) {
      setError('File size must be less than 50MB');
      return;
    }
    setSelectedFile(file);
    setError('');
  }
  \<close>
\<close>

definition handleFileSelect :: "File option \<Rightarrow> FileUpload_state \<Rightarrow> FileUpload_state" where
  "handleFileSelect picked st =
     (case picked of
        None \<Rightarrow> st
      | Some file \<Rightarrow>
          if size_file file > 50 * 1024 * 1024
          then st\<lparr>error_upload := ''File size must be less than 50MB''\<rparr>
          else st\<lparr>selectedFile := Some file, error_upload := []\<rparr>)"

text \<open>
  What \<open>handleUpload\<close> reads from outside the component besides the backend:
  \<open>Date.now()\<close>, \<open>Math.random().toString(36)\<close>, the faults of its two requests, and
  the column defaults the database draws for the new row.
\<close>

record upload_env =
  Date_now :: nat
  Math_random_36 :: string
  upload_fault :: "js_error option"
  insert_fault :: "js_error option"
  gen_random_uuid :: uuid
  db_now :: int

definition upload_values :: "User \<Rightarrow> File \<Rightarrow> string \<Rightarrow> insert_values" where
  "upload_values u f path =
     \<lparr>ins_user_id = id_user u, ins_filename = name f, ins_file_path = path,
      ins_file_size = int (size_file f),
      ins_mime_type = (if type_file f = [] then ''application/octet-stream'' else type_file f)\<rparr>"

definition handleUpload ::
  "User option \<Rightarrow> uuid option \<Rightarrow> upload_env \<Rightarrow> FileUpload_state \<times> backend
     \<Rightarrow> FileUpload_state \<times> backend \<times> ui_event list" where
  "handleUpload user auth_uid env sb =
     (case sb of (st, b) \<Rightarrow>
      (case (selectedFile st, user) of
         (Some f, Some u) \<Rightarrow>
           (let st1 = st\<lparr>uploading := True, error_upload := []\<rparr>;
                path = filePath (id_user u) (name f) (Date_now env) (Math_random_36 env)
            in case storage_upload auth_uid (upload_fault env) path f b of
                 (Some uploadError, b1) \<Rightarrow>
                   (st1\<lparr>error_upload := error_text uploadError ''Failed to upload file'',
                        uploading := False\<rparr>, b1, [])
               | (None, b1) \<Rightarrow>
                   (case files_insert auth_uid (insert_fault env) (upload_values u f path)
                           (gen_random_uuid env) (db_now env) b1 of
                      (Some dbError, b2) \<Rightarrow>
                        (st1\<lparr>error_upload := error_text dbError ''Failed to upload file'',
                             uploading := False\<rparr>, b2, [])
                    | (None, b2) \<Rightarrow>
                        (st1\<lparr>selectedFile := None,
                             fileInput := map_option (\<lambda>_. []) (fileInput st1),
                             uploading := False\<rparr>, b2, [OnUploadComplete])))
       | _ \<Rightarrow> (st, b, [])))"

section \<open>The list component (FileList)\<close>

record FileList_state =
  files :: "FileRecord list"
  loading :: bool
  error_list :: string

text \<open>The state the component starts in (\<open>useState([])\<close>, \<open>useState(true)\<close>, \<open>useState('')\<close>).\<close>

definition FileList_init :: FileList_state where
  "FileList_init = \<lparr>files = [], loading = True, error_list = []\<rparr>"

text \<open>
  \<open>loadFiles\<close>: nothing without a user; otherwise the query, and either
  \<open>setFiles(data || [])\<close> or \<open>setError\<close>, then \<open>setLoading(false)\<close>.
\<close>

definition loadFiles ::
  "User option \<Rightarrow> uuid option \<Rightarrow> js_error option \<Rightarrow> FileList_state \<times> backend
     \<Rightarrow> FileList_state \<times> backend" where
  "loadFiles user auth_uid fault sb =
     (case sb of (st, b) \<Rightarrow>
      (case user of
         None \<Rightarrow> (st, b)
       | Some u \<Rightarrow>
           (let st1 = st\<lparr>loading := True\<rparr>
            in case files_select auth_uid fault (id_user u) b of
                 ((data, Some err), b1) \<Rightarrow>
                   (st1\<lparr>error_list := error_text err ''Failed to load files'',
                        loading := False\<rparr>, b1)
               | ((data, None), b1) \<Rightarrow>
                   (st1\<lparr>files := (case data of None \<Rightarrow> [] | Some rows \<Rightarrow> rows),
                        loading := False\<rparr>, b1))))"

text \<open>
  \<open>handleDelete\<close>; \<open>confirmed\<close> is the answer of the \<open>confirm\<close> dialog.
  \<^verbatim>\<open>
  const { error: storageError } = await supabase.storage.from('user-files').remove([file.file_path]);
  if (storageError) throw storageError;
  const { error: dbError } = await supabase.from('files').delete().eq('id', file.id);
  if (dbError) throw dbError;
  onRefresh();
  } catch (err) { alert('Failed to delete file'); }
  \<close>
\<close>

definition handleDelete ::
  "bool \<Rightarrow> uuid option \<Rightarrow> js_error option \<Rightarrow> js_error option \<Rightarrow> FileRecord \<Rightarrow> backend
     \<Rightarrow> backend \<times> ui_event list" where
  "handleDelete confirmed auth_uid remove_fault delete_fault file b =
     (if \<not> confirmed then (b, [])
      else case storage_remove auth_uid remove_fault [file_path file] b of
             (Some storageError, b1) \<Rightarrow> (b1, [Alert ''Failed to delete file''])
           | (None, b1) \<Rightarrow>
               (case files_delete auth_uid delete_fault (id_rec file) b1 of
                  (Some dbError, b2) \<Rightarrow> (b2, [Alert ''Failed to delete file''])
                | (None, b2) \<Rightarrow> (b2, [OnRefresh])))"

section \<open>Example values\<close>

text \<open>
  Two owners: their uuids (\<open>6f9619ff-8b86-d011-b42d-00c04fc964ff\<close> and
  \<open>0b2c4d6e-1a3f-4c5b-9d7e-8f0a1b2c3d4e\<close> as numbers), the texts of these uuids,
  and the users as the client holds them. \<open>shouting_bob\<close> is Bob with his id in upper
  case, \<open>garbled\<close> a user whose id is no uuid.
\<close>

definition alice_uid :: uuid where
  "alice_uid = 148323679367508813469570288303664096511"

definition bob_uid :: uuid where
  "bob_uid = 14851539484170097937142766339797826894"

definition alice_id :: string where
  "alice_id = ''6f9619ff-8b86-d011-b42d-00c04fc964ff''"

definition bob_id :: string where
  "bob_id = ''0b2c4d6e-1a3f-4c5b-9d7e-8f0a1b2c3d4e''"

definition alice :: User where
  "alice = \<lparr>id_user = alice_id, email = ''alice@example.org''\<rparr>"

definition bob :: User where
  "bob = \<lparr>id_user = bob_id, email = ''bob@example.org''\<rparr>"

definition shouting_bob :: User where
  "shouting_bob =
     \<lparr>id_user = ''0B2C4D6E-1A3F-4C5B-9D7E-8F0A1B2C3D4E'', email = ''bob@example.org''\<rparr>"

definition garbled :: User where
  "garbled = \<lparr>id_user = ''0b2c4d6e-1a3f-4c5b-9d7e-8f0a1b2c3d4e or true'',
               email = ''mallory@example.org''\<rparr>"

definition report :: File where
  "report = \<lparr>name = ''report.pdf'', size_file = 2048, type_file = ''application/pdf''\<rparr>"

definition report_path :: string where
  "report_path = alice_id @ ''/1700000000123-82mvyr.pdf''"

definition report_row :: FileRecord where
  "report_row =
     \<lparr>id_rec = 7, user_id = alice_uid, filename = ''report.pdf'', file_path = report_path,
      file_size = 2048, mime_type = ''application/pdf'', created_at = 1700000000500\<rparr>"

definition one_file_backend :: backend where
  "one_file_backend =
     \<lparr>files_table = [report_row], objects = [report_path \<mapsto> report], calls = []\<rparr>"

definition outage :: js_error where
  "outage = JsError True ''Failed to fetch''"

definition after_delete :: backend where
  "after_delete = fst (handleDelete True (Some alice_uid) None None report_row one_file_backend)"

definition holiday :: File where
  "holiday = \<lparr>name = ''holiday.tar.gz'', size_file = 2048, type_file = ''application/gzip''\<rparr>"

definition readme :: File where
  "readme = \<lparr>name = ''README'', size_file = 17, type_file = []\<rparr>"

definition quiet :: upload_env where
  "quiet = \<lparr>Date_now = 1700000000123, Math_random_36 = ''0.4fzyo82mvyr'',
             upload_fault = None, insert_fault = None,
             gen_random_uuid = 7, db_now = 1700000000500\<rparr>"

definition catalog_down :: upload_env where
  "catalog_down = quiet\<lparr>insert_fault := Some outage\<rparr>"

definition empty_backend :: backend where
  "empty_backend = \<lparr>files_table = [], objects = Map.empty, calls = []\<rparr>"

definition report_selected :: FileUpload_state where
  "report_selected = handleFileSelect (Some report) FileUpload_init"

definition nameless :: File where
  "nameless = \<lparr>name = [], size_file = 5, type_file = ''text/plain''\<rparr>"

definition at_limit :: File where
  "at_limit = \<lparr>name = ''movie.mp4'', size_file = 52428800, type_file = ''video/mp4''\<rparr>"

definition over_limit :: File where
  "over_limit = \<lparr>name = ''movie.mp4'', size_file = 52428801, type_file = ''video/mp4''\<rparr>"

definition bobs_notes :: File where
  "bobs_notes = \<lparr>name = ''notes.txt'', size_file = 120, type_file = ''text/plain''\<rparr>"

definition bobs_env :: upload_env where
  "bobs_env = \<lparr>Date_now = 1700000000999, Math_random_36 = ''0.9x8c7v6b5n4'',
                upload_fault = None, insert_fault = None,
                gen_random_uuid = 8, db_now = 1700000000999\<rparr>"

definition bobs_row :: FileRecord where
  "bobs_row = new_row (upload_values bob bobs_notes
       (filePath (id_user bob) (name bobs_notes) (Date_now bobs_env) (Math_random_36 bobs_env)))
       bob_uid (gen_random_uuid bobs_env) (db_now bobs_env)"

definition after_bobs_upload :: backend where
  "after_bobs_upload =
     fst (snd (handleUpload (Some bob) (Some bob_uid) bobs_env
                 (handleFileSelect (Some bobs_notes) FileUpload_init, one_file_backend)))"

definition twin_a :: FileRecord where
  "twin_a = \<lparr>id_rec = 1, user_id = alice_uid, filename = ''a.txt'',
             file_path = alice_id @ ''/1700000000000-aaaaaa.txt'', file_size = 1,
             mime_type = ''text/plain'', created_at = 1700000000000\<rparr>"

definition twin_b :: FileRecord where
  "twin_b = \<lparr>id_rec = 2, user_id = alice_uid, filename = ''b.txt'',
             file_path = alice_id @ ''/1700000000000-bbbbbb.txt'', file_size = 1,
             mime_type = ''text/plain'', created_at = 1700000000000\<rparr>"

definition twins_backend :: backend where
  "twins_backend = \<lparr>files_table = [twin_a, twin_b], objects = Map.empty, calls = []\<rparr>"

definition twins_backend_swapped :: backend where
  "twins_backend_swapped = \<lparr>files_table = [twin_b, twin_a], objects = Map.empty, calls = []\<rparr>"

definition shared_backend :: backend where
  "shared_backend =
     \<lparr>files_table = [twin_a, report_row, bobs_row, twin_b],
      objects = Map.empty, calls = []\<rparr>"

section \<open>Properties of the key generator\<close>

lemma split_on_not_Nil: "split_on c s \<noteq> []"
  by (induction s) (auto split: list.splits)

lemma split_on_no_sep: "c \<notin> set s \<Longrightarrow> split_on c s = [s]"
  by (induction s) auto

lemma split_on_append:
  "split_on c (p @ c # rest) = split_on c p @ split_on c rest"
proof (induction p)
  case Nil
  show ?case by simp
next
  case (Cons x p)
  obtain y ys where "split_on c p = y # ys"
    using split_on_not_Nil [of c p] by (cases "split_on c p") auto
  with Cons show ?case by simp
qed

lemma split_on_prefix:
  "c \<notin> set p \<Longrightarrow> split_on c (p @ c # rest) = p # split_on c rest"
  by (simp add: split_on_append split_on_no_sep)

lemma last_split_on_append:
  "c \<notin> set e \<Longrightarrow> last (split_on c (p @ c # e)) = e"
  by (simp add: split_on_append split_on_no_sep)

lemma fileExt_Some: "\<exists>e. fileExt nm = Some e"
  by (simp add: fileExt_def pop_def split_on_not_Nil)

lemma fileExt_no_dot: "CHR ''.'' \<notin> set nm \<Longrightarrow> fileExt nm = Some nm"
  by (simp add: fileExt_def pop_def split_on_no_sep)

lemma fileExt_extension:
  "CHR ''.'' \<notin> set e \<Longrightarrow> fileExt (stem @ ''.'' @ e) = Some e"
  by (simp add: fileExt_def pop_def split_on_not_Nil last_split_on_append)

lemma first_folder_filePath:
  assumes "CHR ''/'' \<notin> set uid"
  shows "first_folder (filePath uid nm now rnd) = Some uid"
proof -
  let ?rest = "fileName nm now rnd"
  have "split_on CHR ''/'' (uid @ CHR ''/'' # ?rest) = uid # split_on CHR ''/'' ?rest"
    using assms by (rule split_on_prefix)
  moreover have "split_on CHR ''/'' ?rest \<noteq> []"
    by (rule split_on_not_Nil)
  ultimately show ?thesis
    by (simp add: first_folder_def foldername_def string_to_array_def filePath_def)
qed

lemma uuid_text_no_slash: "uuid_text s \<Longrightarrow> CHR ''/'' \<notin> set s"
  by (auto simp: uuid_text_def list_all_iff)

lemma filePath_suffix:
  "filePath uid nm now rnd =
     uid @ ''/'' @ string_of_nat now @ ''-'' @ substring 7 rnd @ ''.''
       @ last (split_on CHR ''.'' nm)"
  by (simp add: filePath_def fileName_def fileExt_def pop_def template_of_def split_on_not_Nil)

section \<open>Properties of the backend requests and of the handlers\<close>

lemma fst_storage_remove: "fst (storage_remove a fault ps b) = fault"
  by (simp add: storage_remove_def Let_def split: option.splits)

lemma fst_files_delete: "fst (files_delete a fault i b) = fault"
  by (simp add: files_delete_def Let_def split: option.splits)

lemma storage_remove_keeps:
  "storage_remove a fault ps b = (r, b1) \<Longrightarrow>
     files_table b1 = files_table b \<and> calls b1 = calls b @ [Storage_remove ps]"
  by (auto simp: storage_remove_def Let_def log_call_def split: option.splits)

lemma storage_remove_failed:
  "storage_remove a fault ps b = (Some e, b1) \<Longrightarrow> objects b1 = objects b"
  by (auto simp: storage_remove_def Let_def log_call_def split: option.splits)

lemma storage_remove_done:
  "storage_remove a fault ps b = (None, b1) \<Longrightarrow>
     objects b1 = (\<lambda>k. if k \<in> set ps \<and> objects_policy a k then None else objects b k)"
  by (auto simp: storage_remove_def Let_def log_call_def split: option.splits)

lemma files_delete_keeps:
  "files_delete a fault i b = (r, b1) \<Longrightarrow>
     objects b1 = objects b \<and> calls b1 = calls b @ [Files_delete i]"
  by (auto simp: files_delete_def Let_def log_call_def split: option.splits)

lemma files_delete_failed:
  "files_delete a fault i b = (Some e, b1) \<Longrightarrow> files_table b1 = files_table b"
  by (auto simp: files_delete_def Let_def log_call_def split: option.splits)

lemma files_delete_done:
  "files_delete a fault i b = (None, b1) \<Longrightarrow>
     files_table b1 =
       filter (\<lambda>r. \<not> (files_delete_policy a r \<and> id_rec r = i)) (files_table b)"
  by (auto simp: files_delete_def Let_def log_call_def split: option.splits)

lemma handleDelete_blob_failed:
  assumes "storage_remove a rf [file_path file] b = (Some e, b1)"
  shows "handleDelete True a rf df file b = (b1, [Alert ''Failed to delete file''])"
  using assms by (simp add: handleDelete_def)

lemma handleDelete_row_failed:
  assumes "storage_remove a rf [file_path file] b = (None, b1)"
    and "files_delete a df (id_rec file) b1 = (Some e, b2)"
  shows "handleDelete True a rf df file b = (b2, [Alert ''Failed to delete file''])"
  using assms by (simp add: handleDelete_def)

lemma handleDelete_done:
  assumes "storage_remove a rf [file_path file] b = (None, b1)"
    and "files_delete a df (id_rec file) b1 = (None, b2)"
  shows "handleDelete True a rf df file b = (b2, [OnRefresh])"
  using assms by (simp add: handleDelete_def)

lemma loadFiles_calls_irrelevant:
  assumes "files_table b' = files_table b"
  shows "fst (loadFiles user a fault (st, b')) = fst (loadFiles user a fault (st, b))"
  using assms
  by (simp add: loadFiles_def files_select_def Let_def log_call_def split: option.splits)

lemma storage_upload_keeps:
  "storage_upload a fault p f b = (r, b1) \<Longrightarrow>
     files_table b1 = files_table b \<and> calls b1 = calls b @ [Storage_upload p f]"
  by (auto simp: storage_upload_def Let_def log_call_def split: option.splits if_splits)

lemma storage_upload_done:
  "storage_upload a fault p f b = (None, b1) \<Longrightarrow>
     objects b1 = (objects b)(p \<mapsto> f) \<and> objects_policy a p \<and> objects b p = None"
  by (auto simp: storage_upload_def Let_def log_call_def split: option.splits if_splits)

lemma files_insert_keeps:
  "files_insert a fault v i t b = (r, b1) \<Longrightarrow>
     objects b1 = objects b \<and> calls b1 = calls b @ [Files_insert v]"
  by (auto simp: files_insert_def Let_def log_call_def split: option.splits if_splits)

lemma files_insert_failed:
  "files_insert a fault v i t b = (Some e, b1) \<Longrightarrow> files_table b1 = files_table b"
  by (auto simp: files_insert_def Let_def log_call_def split: option.splits if_splits)

lemma files_insert_done:
  "files_insert a fault v i t b = (None, b1) \<Longrightarrow>
     \<exists>w. uuid_in (ins_user_id v) = Some w \<and> a = Some w
       \<and> files_table b1 = files_table b @ [new_row v w i t]"
  by (auto simp: files_insert_def Let_def log_call_def files_insert_policy_def new_row_def
      split: option.splits if_splits)

lemma handleUpload_idle:
  "selectedFile st = None \<or> user = None \<Longrightarrow> handleUpload user a env (st, b) = (st, b, [])"
  by (auto simp: handleUpload_def split: option.splits)

lemma handleUpload_upload_failed:
  assumes "selectedFile st = Some f"
    and "storage_upload a (upload_fault env)
           (filePath (id_user u) (name f) (Date_now env) (Math_random_36 env)) f b = (Some e, b1)"
  shows "handleUpload (Some u) a env (st, b) =
           (st\<lparr>uploading := False, error_upload := error_text e ''Failed to upload file''\<rparr>,
            b1, [])"
  using assms by (simp add: handleUpload_def Let_def)

lemma handleUpload_insert_failed:
  assumes "selectedFile st = Some f"
    and "path = filePath (id_user u) (name f) (Date_now env) (Math_random_36 env)"
    and "storage_upload a (upload_fault env) path f b = (None, b1)"
    and "files_insert a (insert_fault env) (upload_values u f path)
           (gen_random_uuid env) (db_now env) b1 = (Some e, b2)"
  shows "handleUpload (Some u) a env (st, b) =
           (st\<lparr>uploading := False, error_upload := error_text e ''Failed to upload file''\<rparr>,
            b2, [])"
  using assms by (simp add: handleUpload_def Let_def)

lemma handleUpload_done:
  assumes "selectedFile st = Some f"
    and "path = filePath (id_user u) (name f) (Date_now env) (Math_random_36 env)"
    and "storage_upload a (upload_fault env) path f b = (None, b1)"
    and "files_insert a (insert_fault env) (upload_values u f path)
           (gen_random_uuid env) (db_now env) b1 = (None, b2)"
  shows "handleUpload (Some u) a env (st, b) =
           (st\<lparr>uploading := False, error_upload := [], selectedFile := None,
               fileInput := map_option (\<lambda>_. []) (fileInput st)\<rparr>,
            b2, [OnUploadComplete])"
  using assms by (simp add: handleUpload_def Let_def)

lemma handleUpload_first_call:
  assumes "selectedFile st = Some f"
  shows "take (Suc (length (calls b))) (calls (fst (snd (handleUpload (Some u) a env (st, b)))))
         = calls b @ [Storage_upload
             (filePath (id_user u) (name f) (Date_now env) (Math_random_36 env)) f]"
proof -
  let ?path = "filePath (id_user u) (name f) (Date_now env) (Math_random_36 env)"
  obtain r1 b1 where s1: "storage_upload a (upload_fault env) ?path f b = (r1, b1)"
    by (cases "storage_upload a (upload_fault env) ?path f b")
  obtain r2 b2 where s2: "files_insert a (insert_fault env) (upload_values u f ?path)
           (gen_random_uuid env) (db_now env) b1 = (r2, b2)"
    by (cases "files_insert a (insert_fault env) (upload_values u f ?path)
           (gen_random_uuid env) (db_now env) b1")
  note k1 = storage_upload_keeps [OF s1]
  note k2 = files_insert_keeps [OF s2]
  show ?thesis
  proof (cases r1)
    case (Some e)
    with s1 have "storage_upload a (upload_fault env) ?path f b = (Some e, b1)" by simp
    from handleUpload_upload_failed [OF assms this] k1 show ?thesis by simp
  next
    case None
    with s1 have s1': "storage_upload a (upload_fault env) ?path f b = (None, b1)" by simp
    show ?thesis
    proof (cases r2)
      case None
      with s2 have "files_insert a (insert_fault env) (upload_values u f ?path)
           (gen_random_uuid env) (db_now env) b1 = (None, b2)" by simp
      from handleUpload_done [OF assms refl s1' this] k1 k2 show ?thesis by simp
    next
      case (Some e)
      with s2 have "files_insert a (insert_fault env) (upload_values u f ?path)
           (gen_random_uuid env) (db_now env) b1 = (Some e, b2)" by simp
      from handleUpload_insert_failed [OF assms refl s1' this] k1 k2 show ?thesis by simp
    qed
  qed
qed

lemma hex_char_digit: "hex_char d \<in> set ''0123456789abcdef''"
proof -
  have "d mod 16 < length ''0123456789abcdef''"
    by simp
  then show ?thesis
    unfolding hex_char_def by (rule nth_mem)
qed

lemma hex_char_plain: "hex_char d \<in> set ''0123456789abcdef-'' \<and> hex_char d \<noteq> CHR ''-''"
  using hex_char_digit [of d] by auto

lemma uuid_shape_eq:
  "uuid_shape =
     [False, False, False, False, False, False, False, False, True,
      False, False, False, False, True, False, False, False, False, True,
      False, False, False, False, True,
      False, False, False, False, False, False, False, False, False, False, False, False]"
  by code_simp

lemma uuid_text_uuid_out: "uuid_text (uuid_out w)"
proof -
  define plain where "plain = (\<lambda>c. c \<in> set ''0123456789abcdef-'')"
  have digit: "plain (hex_char d)" for d
    unfolding plain_def using hex_char_plain [of d] by blast
  have hyphen: "plain CHR ''-''"
    unfolding plain_def by simp
  have "list_all plain (uuid_out w)"
    by (simp add: uuid_out_def hex_group_def digit hyphen)
  then have chars: "list_all (\<lambda>c. c \<in> set ''0123456789abcdef-'') (uuid_out w)"
    unfolding plain_def .
  have no: "(hex_char d = CHR ''-'') = False" for d
    using hex_char_plain [of d] by blast
  have shape: "map (\<lambda>c. c = CHR ''-'') (uuid_out w) = uuid_shape"
    by (simp add: uuid_out_def hex_group_def no uuid_shape_eq)
  from chars shape show ?thesis
    unfolding uuid_text_def by (intro conjI)
qed

lemma objects_policy_filePath:
  "objects_policy (Some w) (filePath (uuid_out w) nm now rnd)"
  by (simp add: objects_policy_def first_folder_filePath uuid_text_no_slash uuid_text_uuid_out)

lemma alice_in: "uuid_in alice_id = Some alice_uid"
  by (simp add: uuid_in_def hyphen_after_def hex_value_def alice_id_def alice_uid_def)

lemma alice_out: "uuid_out alice_uid = alice_id"
  by (simp add: uuid_out_def hex_group_def hex_char_def alice_id_def alice_uid_def)

lemma bob_in: "uuid_in bob_id = Some bob_uid"
  by (simp add: uuid_in_def hyphen_after_def hex_value_def bob_id_def bob_uid_def)

lemma bob_out: "uuid_out bob_uid = bob_id"
  by (simp add: uuid_out_def hex_group_def hex_char_def bob_id_def bob_uid_def)

lemma shouting_bob_in: "uuid_in (id_user shouting_bob) = Some bob_uid"
  by (simp add: uuid_in_def hyphen_after_def hex_value_def shouting_bob_def bob_uid_def)

lemma garbled_in: "uuid_in (id_user garbled) = None"
  by (simp add: uuid_in_def hyphen_after_def hex_value_def garbled_def)

lemma report_path_eq:
  "filePath alice_id ''report.pdf'' 1700000000123 ''0.4fzyo82mvyr'' = report_path"
  by (simp add: filePath_suffix string_of_nat.simps digit_char_def substring_def report_path_def)

lemma alice_may_write: "objects_policy (Some alice_uid) report_path"
  using objects_policy_filePath [of alice_uid "''report.pdf''" 1700000000123 "''0.4fzyo82mvyr''"]
  by (simp add: alice_out report_path_eq)

lemma handleUpload_succeeds:
  assumes sel: "selectedFile st = Some f"
    and p: "path = filePath (id_user u) (name f) (Date_now env) (Math_random_36 env)"
    and auth: "a = Some w" "id_user u = uuid_out w" "uuid_in (id_user u) = Some w"
    and quiet: "upload_fault env = None" "insert_fault env = None"
    and fresh: "objects b path = None" "gen_random_uuid env \<notin> set (map id_rec (files_table b))"
  shows "handleUpload (Some u) a env (st, b) =
           (st\<lparr>uploading := False, error_upload := [], selectedFile := None,
               fileInput := map_option (\<lambda>_. []) (fileInput st)\<rparr>,
            b\<lparr>calls := calls b @ [Storage_upload path f, Files_insert (upload_values u f path)],
              objects := (objects b)(path \<mapsto> f),
              files_table := files_table b
                 @ [new_row (upload_values u f path) w (gen_random_uuid env) (db_now env)]\<rparr>,
            [OnUploadComplete])"
proof -
  have pol: "objects_policy a path"
    using p auth by (simp add: objects_policy_filePath)
  have s1: "storage_upload a (upload_fault env) path f b =
      (None, b\<lparr>calls := calls b @ [Storage_upload path f], objects := (objects b)(path \<mapsto> f)\<rparr>)"
    using pol quiet fresh by (simp add: storage_upload_def Let_def log_call_def)
  have v: "uuid_in (ins_user_id (upload_values u f path)) = Some w"
    using auth by (simp add: upload_values_def)
  have s2: "files_insert a (insert_fault env) (upload_values u f path)
       (gen_random_uuid env) (db_now env)
       (b\<lparr>calls := calls b @ [Storage_upload path f], objects := (objects b)(path \<mapsto> f)\<rparr>) =
      (None, b\<lparr>calls := calls b @ [Storage_upload path f, Files_insert (upload_values u f path)],
              objects := (objects b)(path \<mapsto> f),
              files_table := files_table b
                 @ [new_row (upload_values u f path) w (gen_random_uuid env) (db_now env)]\<rparr>)"
    using auth(1) quiet fresh v
    by (simp add: files_insert_def Let_def log_call_def files_insert_policy_def new_row_def)
  from handleUpload_done [OF sel p s1 s2] show ?thesis .
qed

lemma handleUpload_table:
  assumes sel: "selectedFile st = Some f"
    and run: "handleUpload (Some u) a env (st, b) = (st', b', events)"
  shows "(files_table b' = files_table b \<and> events = [])
       \<or> (\<exists>w. uuid_in (id_user u) = Some w \<and> a = Some w
            \<and> files_table b' = files_table b
                 @ [new_row (upload_values u f
                      (filePath (id_user u) (name f) (Date_now env) (Math_random_36 env)))
                      w (gen_random_uuid env) (db_now env)]
            \<and> events = [OnUploadComplete])"
proof -
  let ?path = "filePath (id_user u) (name f) (Date_now env) (Math_random_36 env)"
  obtain r1 b1 where s1: "storage_upload a (upload_fault env) ?path f b = (r1, b1)"
    by (cases "storage_upload a (upload_fault env) ?path f b")
  obtain r2 b2 where s2: "files_insert a (insert_fault env) (upload_values u f ?path)
           (gen_random_uuid env) (db_now env) b1 = (r2, b2)"
    by (cases "files_insert a (insert_fault env) (upload_values u f ?path)
           (gen_random_uuid env) (db_now env) b1")
  note k1 = storage_upload_keeps [OF s1]
  show ?thesis
  proof (cases r1)
    case (Some e)
    with s1 have "storage_upload a (upload_fault env) ?path f b = (Some e, b1)" by simp
    from handleUpload_upload_failed [OF sel this] run k1 show ?thesis by simp
  next
    case None
    with s1 have s1': "storage_upload a (upload_fault env) ?path f b = (None, b1)" by simp
    show ?thesis
    proof (cases r2)
      case None
      with s2 have s2': "files_insert a (insert_fault env) (upload_values u f ?path)
           (gen_random_uuid env) (db_now env) b1 = (None, b2)" by simp
      from handleUpload_done [OF sel refl s1' s2'] run k1 files_insert_done [OF s2']
      show ?thesis by (auto simp: upload_values_def)
    next
      case (Some e)
      with s2 have s2': "files_insert a (insert_fault env) (upload_values u f ?path)
           (gen_random_uuid env) (db_now env) b1 = (Some e, b2)" by simp
      from handleUpload_insert_failed [OF sel refl s1' s2'] run k1 files_insert_failed [OF s2']
      show ?thesis by simp
    qed
  qed
qed

lemma handleUpload_new_rows:
  assumes run: "handleUpload user a env (st, b) = (st', b', events)"
    and new: "r \<in> set (files_table b')" "r \<notin> set (files_table b)"
  shows "\<exists>u f. user = Some u \<and> selectedFile st = Some f
           \<and> uuid_in (id_user u) = Some (user_id r) \<and> a = Some (user_id r)
           \<and> filename r = name f"
proof (cases "selectedFile st = None \<or> user = None")
  case True
  from handleUpload_idle [OF this] run new show ?thesis by simp
next
  case False
  then obtain u f where uf: "user = Some u" "selectedFile st = Some f"
    by auto
  from handleUpload_table [OF uf(2) run [unfolded uf(1)]] new uf show ?thesis
    by (auto simp: new_row_def upload_values_def)
qed

lemma handleFileSelect_over:
  "size_file f > 50 * 1024 * 1024 \<Longrightarrow>
     handleFileSelect (Some f) st = st\<lparr>error_upload := ''File size must be less than 50MB''\<rparr>"
  by (simp add: handleFileSelect_def)

lemma handleFileSelect_within:
  "size_file f \<le> 50 * 1024 * 1024 \<Longrightarrow>
     handleFileSelect (Some f) st = st\<lparr>selectedFile := Some f, error_upload := []\<rparr>"
  by (simp add: handleFileSelect_def)

lemma handleUpload_error_irrelevant:
  "snd (handleUpload user a env (st\<lparr>error_upload := msg\<rparr>, b)) = snd (handleUpload user a env (st, b))"
  by (simp add: handleUpload_def Let_def split: option.splits prod.splits)

lemma files_select_rows:
  assumes "files_select a fault uid b = ((Some rows, e), b1)"
  shows "\<exists>w. uuid_in uid = Some w
           \<and> rows = order_created_at_desc
                  (filter (\<lambda>r. files_select_policy a r \<and> user_id r = w) (files_table b))"
  using assms
  by (auto simp: files_select_def Let_def log_call_def split: option.splits)

lemma set_files_select:
  assumes "files_select a fault uid b = ((Some rows, e), b1)"
  shows "set rows
           = {r \<in> set (files_table b). a = Some (user_id r) \<and> uuid_in uid = Some (user_id r)}"
  using files_select_rows [OF assms]
  by (auto simp: order_created_at_desc_def files_select_policy_def)

lemma files_select_malformed:
  "uuid_in uid = None \<Longrightarrow>
     fst (files_select a None uid b) = (None, Some invalid_uuid)"
  by (simp add: files_select_def Let_def)

lemma loadFiles_rows:
  "set (files (fst (loadFiles (Some u) a fault (st, b))))
     \<subseteq> set (files st)
       \<union> {r \<in> set (files_table b).
            a = Some (user_id r) \<and> uuid_in (id_user u) = Some (user_id r)}"
  by (auto simp: loadFiles_def files_select_def Let_def log_call_def order_created_at_desc_def
      files_select_policy_def split: option.splits)

lemma loadFiles_answer:
  "uuid_in (id_user u) = Some w \<Longrightarrow>
   files (fst (loadFiles (Some u) a None (st, b)))
     = order_created_at_desc
         (filter (\<lambda>r. files_select_policy a r \<and> user_id r = w) (files_table b))"
  by (simp add: loadFiles_def files_select_def Let_def log_call_def)

lemma loadFiles_malformed:
  "uuid_in (id_user u) = None \<Longrightarrow>
   fst (loadFiles (Some u) a None (st, b))
     = st\<lparr>loading := False, error_list := error_text invalid_uuid ''Failed to load files''\<rparr>"
  by (simp add: loadFiles_def files_select_def Let_def)

lemma bobs_upload:
  "handleUpload (Some bob) (Some bob_uid) bobs_env
     (handleFileSelect (Some bobs_notes) FileUpload_init, one_file_backend)
   = (FileUpload_init\<lparr>selectedFile := None\<rparr>,
      one_file_backend
        \<lparr>calls := [Storage_upload
             (filePath (id_user bob) (name bobs_notes) (Date_now bobs_env) (Math_random_36 bobs_env))
             bobs_notes,
           Files_insert (upload_values bob bobs_notes
             (filePath (id_user bob) (name bobs_notes) (Date_now bobs_env) (Math_random_36 bobs_env)))],
         objects := (objects one_file_backend)
           (filePath (id_user bob) (name bobs_notes) (Date_now bobs_env) (Math_random_36 bobs_env)
              \<mapsto> bobs_notes),
         files_table := [report_row, bobs_row]\<rparr>,
      [OnUploadComplete])"
proof -
  have sel: "selectedFile (handleFileSelect (Some bobs_notes) FileUpload_init) = Some bobs_notes"
    by (simp add: handleFileSelect_def bobs_notes_def FileUpload_init_def)
  have o: "id_user bob = uuid_out bob_uid"
    by (simp add: bob_def bob_out)
  have i: "uuid_in (id_user bob) = Some bob_uid"
    by (simp add: bob_def bob_in)
  have fresh: "objects one_file_backend
      (filePath (id_user bob) (name bobs_notes) (Date_now bobs_env) (Math_random_36 bobs_env)) = None"
    by (simp add: one_file_backend_def filePath_def report_path_def bob_def bob_id_def
        alice_id_def)
  have new: "gen_random_uuid bobs_env \<notin> set (map id_rec (files_table one_file_backend))"
    by (simp add: bobs_env_def one_file_backend_def report_row_def)
  have q: "upload_fault bobs_env = None" "insert_fault bobs_env = None"
    by (simp_all add: bobs_env_def)
  from handleUpload_succeeds [OF sel refl refl o i q fresh new]
  show ?thesis
    by (simp add: handleFileSelect_def bobs_notes_def FileUpload_init_def one_file_backend_def
        bobs_row_def)
qed

lemma count_list_insort_key:
  "count_list (insort_key f a xs) x = count_list (a # xs) x"
  by (induction xs) auto

lemma count_list_sort_key: "count_list (sort_key f xs) x = count_list xs x"
  by (induction xs) (auto simp: count_list_insort_key)

lemma sorted_order_created_at_desc:
  "sorted_wrt (\<lambda>x y. created_at y \<le> created_at x) (order_created_at_desc rows)"
proof -
  have "sorted (map (\<lambda>r. - created_at r) (order_created_at_desc rows))"
    unfolding order_created_at_desc_def by (rule sorted_sort_key)
  then show ?thesis
    by (simp add: sorted_map)
qed

section \<open>The claims\<close>

subsection \<open>C1: tenant isolation of the list\<close>

text \<open>
  Claim C1. Let \<open>r\<close> be a row that an upload of \<open>B\<close> has added to the table, and let
  \<open>A\<close> be another identity: signed in as someone else, or holding a client id that is
  not a text of \<open>B\<close>'s uuid. Whatever the backend state and the fault, \<open>loadFiles\<close> of
  \<open>A\<close>, started from a list that holds rows of \<open>A\<close> only (the empty list the
  component starts with), shows rows of \<open>A\<close> only, and never \<open>r\<close>. The filter sits in
  the query: every row the \<open>files\<close> query answers with has the uuid that the text of
  the \<open>eq\<close> filter denotes as its \<open>user_id\<close>, and has the caller's \<open>auth.uid()\<close> as
  its \<open>user_id\<close> (the row-level security policy), for every text passed as
  identifier; a text that denotes no uuid gets no rows at all.
\<close>

theorem C1_tenant_isolation:
  "handleUpload (Some B) aB env (stB, b0) = (stB', b1, events) \<Longrightarrow>
   r \<in> set (files_table b1) \<Longrightarrow> r \<notin> set (files_table b0) \<Longrightarrow>
   aA \<noteq> aB \<or> uuid_in (id_user A) \<noteq> uuid_in (id_user B) \<Longrightarrow>
   \<forall>x\<in>set (files st). aA = Some (user_id x) \<and> uuid_in (id_user A) = Some (user_id x) \<Longrightarrow>
     (\<forall>x\<in>set (files (fst (loadFiles (Some A) aA fault (st, b)))).
         aA = Some (user_id x) \<and> uuid_in (id_user A) = Some (user_id x))
     \<and> r \<notin> set (files (fst (loadFiles (Some A) aA fault (st, b))))
     \<and> (\<forall>rows e b'. files_select a fault uid b = ((Some rows, e), b') \<longrightarrow>
            (\<forall>x\<in>set rows. uuid_in uid = Some (user_id x) \<and> a = Some (user_id x)))
     \<and> (uuid_in uid = None \<longrightarrow> fst (fst (files_select a fault uid b)) = None)"
proof -
  assume run: "handleUpload (Some B) aB env (stB, b0) = (stB', b1, events)"
    and new: "r \<in> set (files_table b1)" "r \<notin> set (files_table b0)"
    and diff: "aA \<noteq> aB \<or> uuid_in (id_user A) \<noteq> uuid_in (id_user B)"
    and own: "\<forall>x\<in>set (files st).
                aA = Some (user_id x) \<and> uuid_in (id_user A) = Some (user_id x)"
  have listed: "\<forall>x\<in>set (files (fst (loadFiles (Some A) aA fault (st, b)))).
         aA = Some (user_id x) \<and> uuid_in (id_user A) = Some (user_id x)"
    using loadFiles_rows [of A aA fault st b] own by auto
  from handleUpload_new_rows [OF run new]
  have owner: "uuid_in (id_user B) = Some (user_id r)" "aB = Some (user_id r)"
    by auto
  have absent: "r \<notin> set (files (fst (loadFiles (Some A) aA fault (st, b))))"
  proof
    assume "r \<in> set (files (fst (loadFiles (Some A) aA fault (st, b))))"
    with listed have "aA = Some (user_id r)" "uuid_in (id_user A) = Some (user_id r)"
      by auto
    with owner diff show False
      by simp
  qed
  have query: "\<forall>rows e b'. files_select a fault uid b = ((Some rows, e), b') \<longrightarrow>
            (\<forall>x\<in>set rows. uuid_in uid = Some (user_id x) \<and> a = Some (user_id x))"
    using set_files_select by blast
  have malformed: "uuid_in uid = None \<longrightarrow> fst (fst (files_select a fault uid b)) = None"
    by (simp add: files_select_def Let_def split: option.splits)
  from listed absent query malformed show ?thesis by (intro conjI)
qed

text \<open>
  Claim C1 at work: Bob uploads his notes next to Alice's report; Alice's list does
  not show Bob's row. Crafted identifiers do no better: signed in as Alice, Bob's id
  in upper case lists nothing; signed in as Bob it lists Bob's own row, being a text
  of Bob's uuid; a text that is no uuid makes the query fail.
\<close>

theorem C1_tenant_isolation_witness:
  "Some alice_uid \<noteq> Some bob_uid
   \<and> bobs_row \<in> set (files_table after_bobs_upload)
   \<and> bobs_row \<notin> set (files_table one_file_backend)
   \<and> bobs_row \<notin> set (files (fst (loadFiles (Some alice) (Some alice_uid) None
                                     (FileList_init, after_bobs_upload))))
   \<and> files (fst (loadFiles (Some alice) (Some alice_uid) None
                    (FileList_init, after_bobs_upload))) = [report_row]
   \<and> files (fst (loadFiles (Some shouting_bob) (Some alice_uid) None
                    (FileList_init, after_bobs_upload))) = []
   \<and> files (fst (loadFiles (Some shouting_bob) (Some bob_uid) None
                    (FileList_init, after_bobs_upload))) = [bobs_row]
   \<and> fst (loadFiles (Some garbled) (Some alice_uid) None (FileList_init, after_bobs_upload))
       = FileList_init\<lparr>loading := False,
                        error_list := ''invalid input syntax for type uuid''\<rparr>"
proof -
  have d: "Some alice_uid \<noteq> Some bob_uid"
    by (simp add: alice_uid_def bob_uid_def)
  have run: "handleUpload (Some bob) (Some bob_uid) bobs_env
               (handleFileSelect (Some bobs_notes) FileUpload_init, one_file_backend)
      = (FileUpload_init\<lparr>selectedFile := None\<rparr>, after_bobs_upload, [OnUploadComplete])"
    unfolding after_bobs_upload_def bobs_upload by simp
  have t: "files_table after_bobs_upload = [report_row, bobs_row]"
    unfolding after_bobs_upload_def bobs_upload by simp
  have i: "bobs_row \<in> set (files_table after_bobs_upload)"
    unfolding t by simp
  have o: "bobs_row \<notin> set (files_table one_file_backend)"
    by (simp add: one_file_backend_def bobs_row_def report_row_def new_row_def bobs_env_def)
  have e: "\<forall>x\<in>set (files FileList_init).
             Some alice_uid = Some (user_id x) \<and> uuid_in (id_user alice) = Some (user_id x)"
    by (simp add: FileList_init_def)
  note c = C1_tenant_isolation [OF run i o disjI1 [OF d] e, of None after_bobs_upload]
  have own: "user_id report_row = alice_uid" "user_id bobs_row = bob_uid"
    by (simp_all add: report_row_def bobs_row_def new_row_def)
  have ai: "uuid_in (id_user alice) = Some alice_uid"
    by (simp add: alice_def alice_in)
  have l1: "files (fst (loadFiles (Some alice) (Some alice_uid) None
                    (FileList_init, after_bobs_upload))) = [report_row]"
    using d by (simp add: loadFiles_answer [OF ai] t own files_select_policy_def
        order_created_at_desc_def)
  have l2: "files (fst (loadFiles (Some shouting_bob) (Some alice_uid) None
                    (FileList_init, after_bobs_upload))) = []"
    using d by (simp add: loadFiles_answer [OF shouting_bob_in] t own files_select_policy_def
        order_created_at_desc_def)
  have l3: "files (fst (loadFiles (Some shouting_bob) (Some bob_uid) None
                    (FileList_init, after_bobs_upload))) = [bobs_row]"
    using d by (simp add: loadFiles_answer [OF shouting_bob_in] t own files_select_policy_def
        order_created_at_desc_def)
  have l4: "fst (loadFiles (Some garbled) (Some alice_uid) None (FileList_init, after_bobs_upload))
       = FileList_init\<lparr>loading := False,
                        error_list := ''invalid input syntax for type uuid''\<rparr>"
    by (simp add: loadFiles_malformed [OF garbled_in] error_text_def invalid_uuid_def)
  from d i o c [THEN conjunct2, THEN conjunct1] l1 l2 l3 l4 show ?thesis by (intro conjI)
qed

subsection \<open>C2: a catalog insert that fails after the blob is written\<close>

text \<open>
  Claim C2 as stated does not hold: \<open>handleUpload\<close> has no compensating delete.
  When Alice's blob is written and the insert fails, the two requests the backend
  has received are the upload and the insert, and the blob is still in the bucket.
\<close>

theorem C2_counterexample:
  "fst (storage_upload (Some alice_uid) (upload_fault catalog_down) report_path report
          empty_backend) = None
   \<and> calls (fst (snd (handleUpload (Some alice) (Some alice_uid) catalog_down
                          (report_selected, empty_backend))))
       = [Storage_upload report_path report,
          Files_insert (upload_values alice report report_path)]
   \<and> objects (fst (snd (handleUpload (Some alice) (Some alice_uid) catalog_down
                            (report_selected, empty_backend)))) report_path
       = Some report"
proof -
  have p: "filePath (id_user alice) (name report) (Date_now catalog_down)
             (Math_random_36 catalog_down) = report_path"
    by (simp add: alice_def report_def catalog_down_def quiet_def report_path_eq)
  have sel: "selectedFile report_selected = Some report"
    by (simp add: report_selected_def handleFileSelect_def report_def FileUpload_init_def)
  have s1: "storage_upload (Some alice_uid) (upload_fault catalog_down) report_path report
          empty_backend
        = (None, \<lparr>files_table = [], objects = [report_path \<mapsto> report],
                  calls = [Storage_upload report_path report]\<rparr>)"
    by (simp add: storage_upload_def Let_def log_call_def empty_backend_def catalog_down_def
        quiet_def alice_may_write)
  have s2: "files_insert (Some alice_uid) (insert_fault catalog_down)
          (upload_values alice report report_path) (gen_random_uuid catalog_down)
          (db_now catalog_down)
          \<lparr>files_table = [], objects = [report_path \<mapsto> report],
           calls = [Storage_upload report_path report]\<rparr>
        = (Some outage, \<lparr>files_table = [], objects = [report_path \<mapsto> report],
                  calls = [Storage_upload report_path report,
                           Files_insert (upload_values alice report report_path)]\<rparr>)"
    by (simp add: files_insert_def Let_def log_call_def catalog_down_def quiet_def)
  from handleUpload_insert_failed [OF sel p [symmetric] s1 s2] s1
  show ?thesis by simp
qed

text \<open>
  Claim C2, amended. When the blob write succeeds and the catalog insert fails,
  \<open>handleUpload\<close> sends nothing further: the blob stays in the bucket under its key,
  the table has no new row, \<open>onUploadComplete\<close> is not called, the error shown is
  the insert's (its message, or \<open>Failed to upload file\<close>), and the file stays
  selected.
\<close>

theorem C2_orphan_is_left:
  "selectedFile st = Some f \<Longrightarrow>
   path = filePath (id_user u) (name f) (Date_now env) (Math_random_36 env) \<Longrightarrow>
   storage_upload a (upload_fault env) path f b = (None, b1) \<Longrightarrow>
   files_insert a (insert_fault env) (upload_values u f path)
     (gen_random_uuid env) (db_now env) b1 = (Some e, b2) \<Longrightarrow>
   handleUpload (Some u) a env (st, b) = (st', b', events) \<Longrightarrow>
     calls b' = calls b @ [Storage_upload path f, Files_insert (upload_values u f path)]
     \<and> objects b' path = Some f
     \<and> files_table b' = files_table b
     \<and> events = []
     \<and> error_upload st' = error_text e ''Failed to upload file''
     \<and> selectedFile st' = Some f
     \<and> \<not> uploading st'"
proof -
  assume sel: "selectedFile st = Some f"
    and p: "path = filePath (id_user u) (name f) (Date_now env) (Math_random_36 env)"
    and s1: "storage_upload a (upload_fault env) path f b = (None, b1)"
    and s2: "files_insert a (insert_fault env) (upload_values u f path)
               (gen_random_uuid env) (db_now env) b1 = (Some e, b2)"
    and run: "handleUpload (Some u) a env (st, b) = (st', b', events)"
  from run handleUpload_insert_failed [OF sel p s1 s2]
  have r: "st' = st\<lparr>uploading := False, error_upload := error_text e ''Failed to upload file''\<rparr>"
    "b' = b2" "events = []"
    by simp_all
  note k1 = storage_upload_keeps [OF s1] storage_upload_done [OF s1]
  note k2 = files_insert_keeps [OF s2] files_insert_failed [OF s2]
  from r k1 k2 sel show ?thesis by simp
qed

text \<open>
  Claim C2, amended, at work: the catalog is down while Alice uploads her report.
\<close>

theorem C2_orphan_is_left_witness:
  "calls (fst (snd (handleUpload (Some alice) (Some alice_uid) catalog_down
                          (report_selected, empty_backend))))
       = calls empty_backend
           @ [Storage_upload report_path report,
              Files_insert (upload_values alice report report_path)]
   \<and> snd (snd (handleUpload (Some alice) (Some alice_uid) catalog_down
                          (report_selected, empty_backend))) = []
   \<and> error_upload (fst (handleUpload (Some alice) (Some alice_uid) catalog_down
                          (report_selected, empty_backend)))
       = error_text outage ''Failed to upload file''"
proof -
  have p: "report_path = filePath (id_user alice) (name report) (Date_now catalog_down)
             (Math_random_36 catalog_down)"
    by (simp add: alice_def report_def catalog_down_def quiet_def report_path_eq)
  have sel: "selectedFile report_selected = Some report"
    by (simp add: report_selected_def handleFileSelect_def report_def FileUpload_init_def)
  have s1: "storage_upload (Some alice_uid) (upload_fault catalog_down) report_path report
          empty_backend
        = (None, \<lparr>files_table = [], objects = [report_path \<mapsto> report],
                  calls = [Storage_upload report_path report]\<rparr>)"
    by (simp add: storage_upload_def Let_def log_call_def empty_backend_def catalog_down_def
        quiet_def alice_may_write)
  have s2: "files_insert (Some alice_uid) (insert_fault catalog_down)
          (upload_values alice report report_path) (gen_random_uuid catalog_down)
          (db_now catalog_down)
          \<lparr>files_table = [], objects = [report_path \<mapsto> report],
           calls = [Storage_upload report_path report]\<rparr>
        = (Some outage, \<lparr>files_table = [], objects = [report_path \<mapsto> report],
                  calls = [Storage_upload report_path report,
                           Files_insert (upload_values alice report report_path)]\<rparr>)"
    by (simp add: files_insert_def Let_def log_call_def catalog_down_def quiet_def)
  have run: "handleUpload (Some alice) (Some alice_uid) catalog_down (report_selected, empty_backend)
      = (fst (handleUpload (Some alice) (Some alice_uid) catalog_down (report_selected, empty_backend)),
         fst (snd (handleUpload (Some alice) (Some alice_uid) catalog_down (report_selected, empty_backend))),
         snd (snd (handleUpload (Some alice) (Some alice_uid) catalog_down (report_selected, empty_backend))))"
    by simp
  note c = C2_orphan_is_left [OF sel p s1 s2 run]
  from c [THEN conjunct1] c [THEN conjunct2, THEN conjunct2, THEN conjunct2, THEN conjunct1]
    c [THEN conjunct2, THEN conjunct2, THEN conjunct2, THEN conjunct2, THEN conjunct1]
  show ?thesis by (intro conjI)
qed

subsection \<open>C3: the blob is deleted before the catalog row\<close>

text \<open>
  Claim C3. A confirmed \<open>handleDelete\<close> sends the blob delete first and the catalog
  delete second, never the other way round. When the blob delete succeeds, the
  catalog delete is sent right after it, the blob is gone where the caller may delete
  it, and when the catalog delete succeeds too, the caller's row with that id is gone
  and the handler ends with \<open>onRefresh\<close>. When the blob delete fails, the catalog
  delete is not sent: the table and the bucket are as before, the user is told
  \<open>Failed to delete file\<close>, and a following \<open>loadFiles\<close> shows what it would have
  shown before.
\<close>

theorem C3_blob_delete_first:
  "handleDelete True a rf df file b = (b', events) \<Longrightarrow>
     (calls b' = calls b @ [Storage_remove [file_path file]]
      \<or> calls b' = calls b @ [Storage_remove [file_path file], Files_delete (id_rec file)])
     \<and> (fst (storage_remove a rf [file_path file] b) = None \<longrightarrow>
          calls b' = calls b @ [Storage_remove [file_path file], Files_delete (id_rec file)]
          \<and> objects b'
              = (\<lambda>k. if k \<in> set [file_path file] \<and> objects_policy a k then None
                     else objects b k)
          \<and> (fst (files_delete a df (id_rec file)
                     (snd (storage_remove a rf [file_path file] b))) = None \<longrightarrow>
               files_table b'
                 = filter (\<lambda>r. \<not> (files_delete_policy a r \<and> id_rec r = id_rec file))
                     (files_table b)
               \<and> events = [OnRefresh]))
     \<and> (fst (storage_remove a rf [file_path file] b) \<noteq> None \<longrightarrow>
          calls b' = calls b @ [Storage_remove [file_path file]]
          \<and> files_table b' = files_table b
          \<and> objects b' = objects b
          \<and> events = [Alert ''Failed to delete file'']
          \<and> fst (loadFiles user a' fault (st, b')) = fst (loadFiles user a' fault (st, b)))"
proof -
  assume run: "handleDelete True a rf df file b = (b', events)"
  obtain r1 b1 where s1: "storage_remove a rf [file_path file] b = (r1, b1)"
    by (cases "storage_remove a rf [file_path file] b")
  obtain r2 b2 where s2: "files_delete a df (id_rec file) b1 = (r2, b2)"
    by (cases "files_delete a df (id_rec file) b1")
  note k1 = storage_remove_keeps [OF s1]
  note k2 = files_delete_keeps [OF s2]
  show ?thesis
  proof (cases r1)
    case (Some e)
    from s1 Some have s1': "storage_remove a rf [file_path file] b = (Some e, b1)"
      by simp
    from run handleDelete_blob_failed [OF s1', of df]
    have "b' = b1" and "events = [Alert ''Failed to delete file'']"
      by simp_all
    moreover note storage_remove_failed [OF s1'] k1
    moreover have "fst (loadFiles user a' fault (st, b1)) = fst (loadFiles user a' fault (st, b))"
      using k1 by (intro loadFiles_calls_irrelevant) simp
    moreover have "fst (storage_remove a rf [file_path file] b) \<noteq> None"
      using s1' by simp
    ultimately show ?thesis
      by simp
  next
    case None
    from s1 None have s1': "storage_remove a rf [file_path file] b = (None, b1)"
      by simp
    have first: "fst (storage_remove a rf [file_path file] b) = None"
      "snd (storage_remove a rf [file_path file] b) = b1"
      using s1' by simp_all
    note gone = storage_remove_done [OF s1']
    show ?thesis
    proof (cases r2)
      case None
      with s2 have s2': "files_delete a df (id_rec file) b1 = (None, b2)" by simp
      from run handleDelete_done [OF s1' s2']
      have "b' = b2" and "events = [OnRefresh]"
        by simp_all
      moreover note files_delete_done [OF s2']
      ultimately show ?thesis
        using k1 k2 first gone by simp
    next
      case (Some e)
      with s2 have s2': "files_delete a df (id_rec file) b1 = (Some e, b2)" by simp
      from run handleDelete_row_failed [OF s1' s2']
      have "b' = b2"
        by simp
      moreover have "fst (files_delete a df (id_rec file) b1) = Some e"
        using s2' by simp
      ultimately show ?thesis
        using k1 k2 first gone by simp
    qed
  qed
qed

text \<open>
  Claim C3 at work: Alice deletes her only file, once with an outage during the blob
  delete and once with both requests answered.
\<close>

theorem C3_blob_delete_first_witness:
  "fst (storage_remove (Some alice_uid) (Some outage) [file_path report_row] one_file_backend) \<noteq> None
   \<and> calls (fst (handleDelete True (Some alice_uid) (Some outage) None report_row one_file_backend))
        = calls one_file_backend @ [Storage_remove [file_path report_row]]
   \<and> files_table (fst (handleDelete True (Some alice_uid) (Some outage) None report_row one_file_backend))
        = [report_row]
   \<and> snd (handleDelete True (Some alice_uid) (Some outage) None report_row one_file_backend)
        = [Alert ''Failed to delete file'']
   \<and> fst (storage_remove (Some alice_uid) None [file_path report_row] one_file_backend) = None
   \<and> calls (fst (handleDelete True (Some alice_uid) None None report_row one_file_backend))
        = calls one_file_backend
            @ [Storage_remove [file_path report_row], Files_delete (id_rec report_row)]"
proof -
  have f: "fst (storage_remove (Some alice_uid) (Some outage) [file_path report_row] one_file_backend) \<noteq> None"
    by (simp add: fst_storage_remove)
  have g: "fst (storage_remove (Some alice_uid) None [file_path report_row] one_file_backend) = None"
    by (simp add: fst_storage_remove)
  have t: "files_table one_file_backend = [report_row]"
    by (simp add: one_file_backend_def)
  note c = C3_blob_delete_first [of "Some alice_uid" "Some outage" None report_row one_file_backend
      "fst (handleDelete True (Some alice_uid) (Some outage) None report_row one_file_backend)"
      "snd (handleDelete True (Some alice_uid) (Some outage) None report_row one_file_backend)",
      OF prod.collapse [symmetric], THEN conjunct2, THEN conjunct2, THEN mp, OF f]
  note d = C3_blob_delete_first [of "Some alice_uid" None None report_row one_file_backend
      "fst (handleDelete True (Some alice_uid) None None report_row one_file_backend)"
      "snd (handleDelete True (Some alice_uid) None None report_row one_file_backend)",
      OF prod.collapse [symmetric], THEN conjunct2, THEN conjunct1, THEN mp, OF g,
      THEN conjunct1]
  have "calls (fst (handleDelete True (Some alice_uid) (Some outage) None report_row one_file_backend))
        = calls one_file_backend @ [Storage_remove [file_path report_row]]"
    and "files_table (fst (handleDelete True (Some alice_uid) (Some outage) None report_row one_file_backend))
        = [report_row]"
    and "snd (handleDelete True (Some alice_uid) (Some outage) None report_row one_file_backend)
        = [Alert ''Failed to delete file'']"
    using c t by simp_all
  with f g d show ?thesis by (intro conjI)
qed

subsection \<open>C4: a failure of the second step of a delete\<close>

text \<open>
  Claim C4 as stated does not hold: the handler has one \<open>catch\<close> for both steps.
  With the blob deleted and the catalog delete failing, the user gets the same
  \<open>Failed to delete file\<close> as when the blob delete itself fails.
\<close>

theorem C4_counterexample:
  "fst (storage_remove (Some alice_uid) None [file_path report_row] one_file_backend) = None
   \<and> fst (files_delete (Some alice_uid) (Some outage) (id_rec report_row)
         (snd (storage_remove (Some alice_uid) None [file_path report_row] one_file_backend)))
       = Some outage
   \<and> snd (handleDelete True (Some alice_uid) None (Some outage) report_row one_file_backend)
       = [Alert ''Failed to delete file'']
   \<and> snd (handleDelete True (Some alice_uid) (Some outage) None report_row one_file_backend)
       = [Alert ''Failed to delete file'']"
  by (simp add: handleDelete_def storage_remove_def files_delete_def Let_def)

text \<open>
  Claim C4, amended. When the blob delete succeeds and the catalog delete fails,
  \<open>handleDelete\<close> reports a failure, so the failure is not swallowed; the report is the
  alert \<open>Failed to delete file\<close>, the same as for a failure of the first step. Both
  requests were sent, the table is unchanged, and the blob is gone where the caller
  was allowed to delete it.
\<close>

theorem C4_second_step_failure:
  "handleDelete True a rf df file b = (b', events) \<Longrightarrow>
   storage_remove a rf [file_path file] b = (None, b1) \<Longrightarrow>
   files_delete a df (id_rec file) b1 = (Some e, b2) \<Longrightarrow>
     events = [Alert ''Failed to delete file'']
     \<and> events = snd (handleDelete True a (Some e') df' file b)
     \<and> calls b' = calls b @ [Storage_remove [file_path file], Files_delete (id_rec file)]
     \<and> files_table b' = files_table b
     \<and> objects b' (file_path file)
           = (if objects_policy a (file_path file) then None else objects b (file_path file))"
proof -
  assume run: "handleDelete True a rf df file b = (b', events)"
    and s1: "storage_remove a rf [file_path file] b = (None, b1)"
    and s2: "files_delete a df (id_rec file) b1 = (Some e, b2)"
  from run handleDelete_row_failed [OF s1 s2]
  have r: "b' = b2" "events = [Alert ''Failed to delete file'']"
    by simp_all
  have first: "snd (handleDelete True a (Some e') df' file b) = [Alert ''Failed to delete file'']"
    by (simp add: handleDelete_def storage_remove_def Let_def)
  note k1 = storage_remove_keeps [OF s1] storage_remove_done [OF s1]
  note k2 = files_delete_keeps [OF s2] files_delete_failed [OF s2]
  from r first k1 k2 show ?thesis
    by simp
qed

text \<open>
  Claim C4, amended, at work: an outage during the catalog delete of Alice's file.
\<close>

theorem C4_second_step_failure_witness:
  "snd (handleDelete True (Some alice_uid) None (Some outage) report_row one_file_backend)
       = [Alert ''Failed to delete file'']
   \<and> snd (handleDelete True (Some alice_uid) None (Some outage) report_row one_file_backend)
       = snd (handleDelete True (Some alice_uid) (Some outage) None report_row one_file_backend)
   \<and> files_table (fst (handleDelete True (Some alice_uid) None (Some outage) report_row one_file_backend))
       = files_table one_file_backend"
proof -
  note c = C4_second_step_failure [of "Some alice_uid" None "Some outage" report_row one_file_backend
      "fst (handleDelete True (Some alice_uid) None (Some outage) report_row one_file_backend)"
      "snd (handleDelete True (Some alice_uid) None (Some outage) report_row one_file_backend)"
      "snd (storage_remove (Some alice_uid) None [file_path report_row] one_file_backend)"
      outage
      "snd (files_delete (Some alice_uid) (Some outage) (id_rec report_row)
         (snd (storage_remove (Some alice_uid) None [file_path report_row] one_file_backend)))"
      outage None, OF prod.collapse [symmetric]]
  have s1: "storage_remove (Some alice_uid) None [file_path report_row] one_file_backend
      = (None, snd (storage_remove (Some alice_uid) None [file_path report_row] one_file_backend))"
    by (simp add: storage_remove_def Let_def)
  have s2: "files_delete (Some alice_uid) (Some outage) (id_rec report_row)
         (snd (storage_remove (Some alice_uid) None [file_path report_row] one_file_backend))
      = (Some outage, snd (files_delete (Some alice_uid) (Some outage) (id_rec report_row)
         (snd (storage_remove (Some alice_uid) None [file_path report_row] one_file_backend))))"
    by (simp add: files_delete_def Let_def)
  note d = c [OF s1 s2]
  from d [THEN conjunct1] d [THEN conjunct2, THEN conjunct1]
    d [THEN conjunct2, THEN conjunct2, THEN conjunct2, THEN conjunct1]
  show ?thesis by (intro conjI)
qed

subsection \<open>C5: the order of the list\<close>

text \<open>
  Claim C5 as stated does not hold: the query orders by \<open>created_at\<close> alone. Two
  rows of Alice with the same \<open>created_at\<close> are listed with the smaller \<open>id\<close> first
  when the table holds them in that order, and the other way round when it holds them
  the other way round: \<open>id\<close> breaks no tie.
\<close>

theorem C5_counterexample:
  "created_at twin_a = created_at twin_b
   \<and> id_rec twin_a < id_rec twin_b
   \<and> files (fst (loadFiles (Some alice) (Some alice_uid) None (FileList_init, twins_backend)))
       = [twin_a, twin_b]
   \<and> files (fst (loadFiles (Some alice) (Some alice_uid) None
                    (FileList_init, twins_backend_swapped)))
       = [twin_b, twin_a]"
proof -
  have ai: "uuid_in (id_user alice) = Some alice_uid"
    by (simp add: alice_def alice_in)
  show ?thesis
    by (simp add: loadFiles_answer [OF ai] order_created_at_desc_def files_select_policy_def
        twins_backend_def twins_backend_swapped_def twin_a_def twin_b_def)
qed

text \<open>
  Claim C5, amended. For every owner and every state of the table, \<open>loadFiles\<close>
  (signed in as that owner, with a client id that is a text of the owner's uuid, the
  query answered) returns exactly the owner's rows, each as often as the table has
  it, ordered by \<open>created_at\<close> descending. Nothing is said about rows with equal
  \<open>created_at\<close>.
\<close>

theorem C5_newest_first:
  "uuid_in (id_user u) = Some w \<Longrightarrow>
   set (files (fst (loadFiles (Some u) (Some w) None (st, b))))
     = {r \<in> set (files_table b). user_id r = w}
   \<and> count_list (files (fst (loadFiles (Some u) (Some w) None (st, b)))) r
     = count_list (filter (\<lambda>r. user_id r = w) (files_table b)) r
   \<and> sorted_wrt (\<lambda>x y. created_at y \<le> created_at x)
        (files (fst (loadFiles (Some u) (Some w) None (st, b))))"
proof -
  assume id: "uuid_in (id_user u) = Some w"
  have same: "filter (\<lambda>r. files_select_policy (Some w) r \<and> user_id r = w) (files_table b)
              = filter (\<lambda>r. user_id r = w) (files_table b)"
    by (rule filter_cong) (auto simp: files_select_policy_def)
  have members: "set (order_created_at_desc (filter (\<lambda>r. user_id r = w) (files_table b)))
      = {r \<in> set (files_table b). user_id r = w}"
    by (auto simp: order_created_at_desc_def)
  have counts: "count_list
        (order_created_at_desc (filter (\<lambda>r. user_id r = w) (files_table b))) r
      = count_list (filter (\<lambda>r. user_id r = w) (files_table b)) r"
    by (simp add: order_created_at_desc_def count_list_sort_key)
  from members counts sorted_order_created_at_desc show ?thesis
    unfolding loadFiles_answer [OF id] same by (intro conjI)
qed

text \<open>
  Claim C5, amended, at work: a table with three rows of Alice, two of them of the
  same time, and a row of Bob. Alice's list is her newest row, then the two others.
\<close>

theorem C5_newest_first_witness:
  "uuid_in (id_user alice) = Some alice_uid
   \<and> count_list (files (fst (loadFiles (Some alice) (Some alice_uid) None
                             (FileList_init, shared_backend)))) report_row
     = count_list (filter (\<lambda>r. user_id r = alice_uid) (files_table shared_backend)) report_row
   \<and> sorted_wrt (\<lambda>x y. created_at y \<le> created_at x)
        (files (fst (loadFiles (Some alice) (Some alice_uid) None
                       (FileList_init, shared_backend))))
   \<and> files (fst (loadFiles (Some alice) (Some alice_uid) None (FileList_init, shared_backend)))
       = [report_row, twin_a, twin_b]"
proof -
  have ai: "uuid_in (id_user alice) = Some alice_uid"
    by (simp add: alice_def alice_in)
  note c = C5_newest_first [OF ai, of FileList_init shared_backend report_row]
  have d: "alice_uid \<noteq> bob_uid"
    by (simp add: alice_uid_def bob_uid_def)
  have own: "user_id report_row = alice_uid" "user_id bobs_row = bob_uid"
    "user_id twin_a = alice_uid" "user_id twin_b = alice_uid"
    by (simp_all add: report_row_def bobs_row_def new_row_def twin_a_def twin_b_def)
  have times: "created_at report_row = 1700000000500" "created_at twin_a = 1700000000000"
    "created_at twin_b = 1700000000000"
    by (simp_all add: report_row_def twin_a_def twin_b_def)
  have l: "files (fst (loadFiles (Some alice) (Some alice_uid) None (FileList_init, shared_backend)))
       = [report_row, twin_a, twin_b]"
    using d by (simp add: loadFiles_answer [OF ai] shared_backend_def own times
        files_select_policy_def order_created_at_desc_def)
  from ai c [THEN conjunct2, THEN conjunct1] c [THEN conjunct2, THEN conjunct2] l
  show ?thesis by (intro conjI)
qed

subsection \<open>C6: the size limit\<close>

text \<open>
  Claim C6. A file of at most \<open>50 * 1024 * 1024\<close> bytes, so one of exactly that
  size, is accepted: \<open>handleFileSelect\<close> selects it and clears the error, and
  \<open>handleUpload\<close> then sends its blob upload. A larger file, so one of one byte
  more, is rejected: \<open>handleFileSelect\<close> only sets the error
  \<open>File size must be less than 50MB\<close>, the validation error of this code; it takes
  no backend, and what \<open>handleUpload\<close> then does to the backend is what it would have
  done had the file never been picked: nothing at all when no file was selected
  before.
\<close>

theorem C6_size_limit:
  "(size_file f \<le> 50 * 1024 * 1024 \<longrightarrow>
      handleFileSelect (Some f) st = st\<lparr>selectedFile := Some f, error_upload := []\<rparr>
      \<and> take (Suc (length (calls b)))
            (calls (fst (snd (handleUpload (Some u) a env (handleFileSelect (Some f) st, b)))))
          = calls b @ [Storage_upload
              (filePath (id_user u) (name f) (Date_now env) (Math_random_36 env)) f])
   \<and> (size_file f > 50 * 1024 * 1024 \<longrightarrow>
      handleFileSelect (Some f) st
          = st\<lparr>error_upload := ''File size must be less than 50MB''\<rparr>
      \<and> snd (handleUpload user a env (handleFileSelect (Some f) st, b))
          = snd (handleUpload user a env (st, b))
      \<and> (selectedFile st = None \<longrightarrow>
           snd (handleUpload user a env (handleFileSelect (Some f) st, b)) = (b, [])))"
proof (intro conjI impI)
  assume m: "size_file f \<le> 50 * 1024 * 1024"
  then show sel: "handleFileSelect (Some f) st = st\<lparr>selectedFile := Some f, error_upload := []\<rparr>"
    by (simp add: handleFileSelect_within)
  have "selectedFile (handleFileSelect (Some f) st) = Some f"
    by (simp add: sel)
  from handleUpload_first_call [OF this]
  show "take (Suc (length (calls b)))
            (calls (fst (snd (handleUpload (Some u) a env (handleFileSelect (Some f) st, b)))))
          = calls b @ [Storage_upload
              (filePath (id_user u) (name f) (Date_now env) (Math_random_36 env)) f]" .
next
  assume m: "size_file f > 50 * 1024 * 1024"
  then show rej: "handleFileSelect (Some f) st
          = st\<lparr>error_upload := ''File size must be less than 50MB''\<rparr>"
    by (simp add: handleFileSelect_over)
  show same: "snd (handleUpload user a env (handleFileSelect (Some f) st, b))
          = snd (handleUpload user a env (st, b))"
    unfolding rej by (rule handleUpload_error_irrelevant)
  assume "selectedFile st = None"
  then show "snd (handleUpload user a env (handleFileSelect (Some f) st, b)) = (b, [])"
    unfolding same by (simp add: handleUpload_idle)
qed

text \<open>
  Claim C6 at work: a file of 52428800 bytes and one of 52428801 bytes.
\<close>

theorem C6_size_limit_witness:
  "size_file at_limit = 50 * 1024 * 1024
   \<and> handleFileSelect (Some at_limit) FileUpload_init
       = FileUpload_init\<lparr>selectedFile := Some at_limit, error_upload := []\<rparr>
   \<and> size_file over_limit = 50 * 1024 * 1024 + 1
   \<and> handleFileSelect (Some over_limit) FileUpload_init
       = FileUpload_init\<lparr>error_upload := ''File size must be less than 50MB''\<rparr>
   \<and> snd (handleUpload (Some alice) (Some alice_uid) quiet
              (handleFileSelect (Some over_limit) FileUpload_init, empty_backend))
       = (empty_backend, [])"
proof -
  have m': "size_file at_limit = 50 * 1024 * 1024"
    by (simp add: at_limit_def)
  have o': "size_file over_limit = 50 * 1024 * 1024 + 1"
    by (simp add: over_limit_def)
  have m: "size_file at_limit \<le> 50 * 1024 * 1024"
    by (simp add: at_limit_def)
  have o: "size_file over_limit > 50 * 1024 * 1024"
    by (simp add: over_limit_def)
  have n: "selectedFile FileUpload_init = None"
    by (simp add: FileUpload_init_def)
  note c1 = C6_size_limit [of at_limit FileUpload_init empty_backend alice "Some alice_uid" quiet
      "Some alice", THEN conjunct1, THEN mp, OF m, THEN conjunct1]
  note c2 = C6_size_limit [of over_limit FileUpload_init empty_backend alice "Some alice_uid" quiet
      "Some alice", THEN conjunct2, THEN mp, OF o]
  note c3 = c2 [THEN conjunct2, THEN conjunct2, THEN mp, OF n]
  from m' c1 o' c2 [THEN conjunct1] c3 show ?thesis by (intro conjI)
qed

subsection \<open>C7: the display name is not validated\<close>

text \<open>
  Claim C7 as stated does not hold: \<open>handleUpload\<close> returns early only when no file
  is selected or no user is signed in. A selected file whose name is empty is
  uploaded like any other, and its catalog row has the empty \<open>filename\<close>.
\<close>

theorem C7_counterexample:
  "name nameless = []
   \<and> snd (snd (handleUpload (Some alice) (Some alice_uid) quiet
                  (handleFileSelect (Some nameless) FileUpload_init, empty_backend)))
       = [OnUploadComplete]
   \<and> map filename (files_table (fst (snd (handleUpload (Some alice) (Some alice_uid) quiet
                  (handleFileSelect (Some nameless) FileUpload_init, empty_backend)))))
       = [[]]"
proof -
  have sel: "selectedFile (handleFileSelect (Some nameless) FileUpload_init) = Some nameless"
    by (simp add: handleFileSelect_def nameless_def FileUpload_init_def)
  have o: "id_user alice = uuid_out alice_uid"
    by (simp add: alice_def alice_out)
  have i: "uuid_in (id_user alice) = Some alice_uid"
    by (simp add: alice_def alice_in)
  note s = handleUpload_succeeds [OF sel refl refl o i, of quiet empty_backend]
  have "handleUpload (Some alice) (Some alice_uid) quiet
          (handleFileSelect (Some nameless) FileUpload_init, empty_backend)
        = (handleFileSelect (Some nameless) FileUpload_init
             \<lparr>uploading := False, error_upload := [], selectedFile := None,
              fileInput := map_option (\<lambda>_. [])
                 (fileInput (handleFileSelect (Some nameless) FileUpload_init))\<rparr>,
           empty_backend
             \<lparr>calls := calls empty_backend
                @ [Storage_upload
                     (filePath (id_user alice) (name nameless) (Date_now quiet)
                        (Math_random_36 quiet)) nameless,
                   Files_insert (upload_values alice nameless
                     (filePath (id_user alice) (name nameless) (Date_now quiet)
                        (Math_random_36 quiet)))],
              objects := (objects empty_backend)
                (filePath (id_user alice) (name nameless) (Date_now quiet)
                        (Math_random_36 quiet) \<mapsto> nameless),
              files_table := files_table empty_backend
                @ [new_row (upload_values alice nameless
                     (filePath (id_user alice) (name nameless) (Date_now quiet)
                        (Math_random_36 quiet))) alice_uid (gen_random_uuid quiet)
                     (db_now quiet)]\<rparr>,
           [OnUploadComplete])"
    by (rule s) (simp_all add: quiet_def empty_backend_def)
  then show ?thesis
    by (simp add: new_row_def upload_values_def nameless_def empty_backend_def)
qed

text \<open>
  Claim C7, amended. The display name is not checked. Whatever the name of the
  selected file, empty or not, the first request of \<open>handleUpload\<close> is the blob upload
  of that file. Whenever that upload succeeds, the next request is the catalog insert
  with the file's name, unchanged, as its \<open>filename\<close>; and when the insert succeeds
  too, the upload completes with the backend the insert left. A completed upload has
  added exactly the row built from the file, and every row an upload adds has the
  file's name as its \<open>filename\<close>.
\<close>

theorem C7_name_is_not_checked:
  "selectedFile st = Some f \<Longrightarrow>
   handleUpload (Some u) a env (st, b) = (st', b', events) \<Longrightarrow>
     (let path = filePath (id_user u) (name f) (Date_now env) (Math_random_36 env);
          blob = storage_upload a (upload_fault env) path f b;
          row = files_insert a (insert_fault env) (upload_values u f path)
                  (gen_random_uuid env) (db_now env) (snd blob)
      in take (Suc (length (calls b))) (calls b') = calls b @ [Storage_upload path f]
         \<and> ins_filename (upload_values u f path) = name f
         \<and> (fst blob = None \<longrightarrow>
              calls b' = calls b @ [Storage_upload path f, Files_insert (upload_values u f path)]
              \<and> (fst row = None \<longrightarrow> events = [OnUploadComplete] \<and> b' = snd row))
         \<and> (events = [OnUploadComplete] \<longrightarrow>
              (\<exists>w. uuid_in (id_user u) = Some w
                 \<and> files_table b' = files_table b
                      @ [new_row (upload_values u f path) w (gen_random_uuid env) (db_now env)]))
         \<and> (\<forall>r\<in>set (files_table b'). r \<notin> set (files_table b) \<longrightarrow> filename r = name f))"
proof -
  assume sel: "selectedFile st = Some f"
    and run: "handleUpload (Some u) a env (st, b) = (st', b', events)"
  let ?path = "filePath (id_user u) (name f) (Date_now env) (Math_random_36 env)"
  obtain r1 b1 where s1: "storage_upload a (upload_fault env) ?path f b = (r1, b1)"
    by (cases "storage_upload a (upload_fault env) ?path f b")
  obtain r2 b2 where s2: "files_insert a (insert_fault env) (upload_values u f ?path)
           (gen_random_uuid env) (db_now env) b1 = (r2, b2)"
    by (cases "files_insert a (insert_fault env) (upload_values u f ?path)
           (gen_random_uuid env) (db_now env) b1")
  note k1 = storage_upload_keeps [OF s1]
  note k2 = files_insert_keeps [OF s2]
  from handleUpload_first_call [OF sel, of b u a env] run
  have first: "take (Suc (length (calls b))) (calls b') = calls b @ [Storage_upload ?path f]"
    by simp
  have named: "ins_filename (upload_values u f ?path) = name f"
    by (simp add: upload_values_def)
  have both: "fst (storage_upload a (upload_fault env) ?path f b) = None \<longrightarrow>
      calls b' = calls b @ [Storage_upload ?path f, Files_insert (upload_values u f ?path)]
      \<and> (fst (files_insert a (insert_fault env) (upload_values u f ?path)
                 (gen_random_uuid env) (db_now env)
                 (snd (storage_upload a (upload_fault env) ?path f b))) = None \<longrightarrow>
           events = [OnUploadComplete]
           \<and> b' = snd (files_insert a (insert_fault env) (upload_values u f ?path)
                 (gen_random_uuid env) (db_now env)
                 (snd (storage_upload a (upload_fault env) ?path f b))))"
  proof
    assume "fst (storage_upload a (upload_fault env) ?path f b) = None"
    with s1 have s1': "storage_upload a (upload_fault env) ?path f b = (None, b1)"
      by simp
    show "calls b' = calls b @ [Storage_upload ?path f, Files_insert (upload_values u f ?path)]
      \<and> (fst (files_insert a (insert_fault env) (upload_values u f ?path)
                 (gen_random_uuid env) (db_now env)
                 (snd (storage_upload a (upload_fault env) ?path f b))) = None \<longrightarrow>
           events = [OnUploadComplete]
           \<and> b' = snd (files_insert a (insert_fault env) (upload_values u f ?path)
                 (gen_random_uuid env) (db_now env)
                 (snd (storage_upload a (upload_fault env) ?path f b))))"
    proof (cases r2)
      case None
      with s2 have s2': "files_insert a (insert_fault env) (upload_values u f ?path)
           (gen_random_uuid env) (db_now env) b1 = (None, b2)" by simp
      from handleUpload_done [OF sel refl s1' s2'] run
      have "b' = b2" "events = [OnUploadComplete]"
        by simp_all
      then show ?thesis
        using k1 k2 s1' s2' by simp
    next
      case (Some e)
      with s2 have s2': "files_insert a (insert_fault env) (upload_values u f ?path)
           (gen_random_uuid env) (db_now env) b1 = (Some e, b2)" by simp
      from handleUpload_insert_failed [OF sel refl s1' s2'] run
      have "b' = b2"
        by simp
      then show ?thesis
        using k1 k2 s1' s2' by simp
    qed
  qed
  from handleUpload_table [OF sel run]
  have completed: "events = [OnUploadComplete] \<longrightarrow>
          (\<exists>w. uuid_in (id_user u) = Some w
             \<and> files_table b' = files_table b
                  @ [new_row (upload_values u f ?path) w (gen_random_uuid env) (db_now env)])"
    by auto
  have rows: "\<forall>r\<in>set (files_table b'). r \<notin> set (files_table b) \<longrightarrow> filename r = name f"
    using handleUpload_new_rows [OF run] sel by auto
  from first named both completed rows show ?thesis
    unfolding Let_def by (intro conjI)
qed

text \<open>
  Claim C7, amended, at work: the file without a name reaches the bucket and the
  catalog.
\<close>

theorem C7_name_is_not_checked_witness:
  "selectedFile (handleFileSelect (Some nameless) FileUpload_init) = Some nameless
   \<and> fst (storage_upload (Some alice_uid) (upload_fault quiet)
            (filePath (id_user alice) (name nameless) (Date_now quiet) (Math_random_36 quiet))
            nameless empty_backend) = None
   \<and> calls (fst (snd (handleUpload (Some alice) (Some alice_uid) quiet
                  (handleFileSelect (Some nameless) FileUpload_init, empty_backend))))
       = calls empty_backend
           @ [Storage_upload
                (filePath (id_user alice) (name nameless) (Date_now quiet) (Math_random_36 quiet))
                nameless,
              Files_insert (upload_values alice nameless
                (filePath (id_user alice) (name nameless) (Date_now quiet)
                   (Math_random_36 quiet)))]
   \<and> ins_filename (upload_values alice nameless
         (filePath (id_user alice) (name nameless) (Date_now quiet) (Math_random_36 quiet)))
       = name nameless"
proof -
  have sel: "selectedFile (handleFileSelect (Some nameless) FileUpload_init) = Some nameless"
    by (simp add: handleFileSelect_def nameless_def FileUpload_init_def)
  have run: "handleUpload (Some alice) (Some alice_uid) quiet
               (handleFileSelect (Some nameless) FileUpload_init, empty_backend)
      = (fst (handleUpload (Some alice) (Some alice_uid) quiet
               (handleFileSelect (Some nameless) FileUpload_init, empty_backend)),
         fst (snd (handleUpload (Some alice) (Some alice_uid) quiet
               (handleFileSelect (Some nameless) FileUpload_init, empty_backend))),
         snd (snd (handleUpload (Some alice) (Some alice_uid) quiet
               (handleFileSelect (Some nameless) FileUpload_init, empty_backend))))"
    by simp
  have pol: "objects_policy (Some alice_uid)
      (filePath (id_user alice) (name nameless) (Date_now quiet) (Math_random_36 quiet))"
    using objects_policy_filePath [of alice_uid "name nameless" "Date_now quiet"
        "Math_random_36 quiet"]
    by (simp add: alice_def alice_out)
  have blob: "fst (storage_upload (Some alice_uid) (upload_fault quiet)
            (filePath (id_user alice) (name nameless) (Date_now quiet) (Math_random_36 quiet))
            nameless empty_backend) = None"
    using pol by (simp add: storage_upload_def Let_def log_call_def quiet_def empty_backend_def)
  note c = C7_name_is_not_checked [OF sel run, unfolded Let_def]
  note named = c [THEN conjunct2, THEN conjunct1]
  note sent = c [THEN conjunct2, THEN conjunct2, THEN conjunct1, THEN mp, OF blob,
      THEN conjunct1]
  from sel blob sent named show ?thesis by (intro conjI)
qed

subsection \<open>C8: deleting what is not there\<close>

text \<open>
  Claim C8 as stated does not hold: \<open>handleDelete\<close> does not look the row up. After
  Alice has deleted her file, a second delete of the same record ends with
  \<open>onRefresh\<close>, as a successful delete does; so does Bob's delete of Alice's record.
\<close>

theorem C8_counterexample:
  "files_table after_delete = []
   \<and> objects after_delete (file_path report_row) = None
   \<and> snd (handleDelete True (Some alice_uid) None None report_row after_delete) = [OnRefresh]
   \<and> snd (handleDelete True (Some bob_uid) None None report_row one_file_backend) = [OnRefresh]"
proof -
  have p: "objects_policy (Some alice_uid) report_path"
    by (rule alice_may_write)
  have q: "alice_uid \<noteq> bob_uid"
    by (simp add: alice_uid_def bob_uid_def)
  show ?thesis
    using q
    by (simp add: after_delete_def handleDelete_def storage_remove_def files_delete_def Let_def
        log_call_def one_file_backend_def report_row_def files_delete_policy_def p)
qed

text \<open>
  Claim C8, amended. When no row with the record's id belongs to the caller (there is
  none, or it is another owner's), \<open>handleDelete\<close> leaves the table as it is; when
  neither request fails it sends both and ends with \<open>onRefresh\<close>, and the bucket is
  unchanged too when the record's blob is absent or outside the caller's folder.
\<close>

theorem C8_delete_without_lookup:
  "handleDelete True a rf df file b = (b', events) \<Longrightarrow>
   \<forall>r\<in>set (files_table b). id_rec r = id_rec file \<longrightarrow> a \<noteq> Some (user_id r) \<Longrightarrow>
     files_table b' = files_table b
     \<and> (rf = None \<and> df = None \<longrightarrow>
          events = [OnRefresh]
          \<and> calls b' = calls b @ [Storage_remove [file_path file], Files_delete (id_rec file)])
     \<and> (objects b (file_path file) = None \<or> \<not> objects_policy a (file_path file) \<longrightarrow>
          objects b' = objects b)"
proof -
  assume run: "handleDelete True a rf df file b = (b', events)"
    and hidden: "\<forall>r\<in>set (files_table b). id_rec r = id_rec file \<longrightarrow> a \<noteq> Some (user_id r)"
  have keep: "filter (\<lambda>r. \<not> (files_delete_policy a r \<and> id_rec r = id_rec file)) (files_table b)
      = files_table b"
    using hidden by (auto simp: files_delete_policy_def intro: filter_True)
  have obj: "objects b (file_path file) = None \<or> \<not> objects_policy a (file_path file) \<Longrightarrow>
      (\<lambda>k. if k \<in> set [file_path file] \<and> objects_policy a k then None else objects b k) = objects b"
    by (rule ext) auto
  from run keep obj show ?thesis
    by (auto simp: handleDelete_def storage_remove_def files_delete_def Let_def log_call_def
        split: option.splits)
qed

text \<open>
  Claim C8, amended, at work: Bob deletes Alice's record.
\<close>

theorem C8_delete_without_lookup_witness:
  "user_id report_row \<noteq> bob_uid
   \<and> files_table (fst (handleDelete True (Some bob_uid) None None report_row one_file_backend))
       = files_table one_file_backend
   \<and> snd (handleDelete True (Some bob_uid) None None report_row one_file_backend) = [OnRefresh]"
proof -
  have h: "\<forall>r\<in>set (files_table one_file_backend). id_rec r = id_rec report_row \<longrightarrow> Some bob_uid \<noteq> Some (user_id r)"
    by (simp add: one_file_backend_def report_row_def alice_uid_def bob_uid_def)
  note c = C8_delete_without_lookup [of "Some bob_uid" None None report_row one_file_backend
      "fst (handleDelete True (Some bob_uid) None None report_row one_file_backend)"
      "snd (handleDelete True (Some bob_uid) None None report_row one_file_backend)",
      OF prod.collapse [symmetric] h]
  have o: "user_id report_row \<noteq> bob_uid"
    by (simp add: report_row_def alice_uid_def bob_uid_def)
  from o c show ?thesis by simp
qed

subsection \<open>C9: the storage key carries the owner and the extension\<close>

text \<open>
  Claim C9. For every owner identity (the text of a uuid) and every display name,
  the first folder of the generated key, as the storage policies read it, is the
  owner identity; and a display name \<open>stem.ext\<close> gives a key that ends in \<open>.ext\<close>.
  The key is \<open>filePath\<close> of the owner, the name, \<open>Date.now()\<close> and
  \<open>Math.random()\<close>, a function that takes no backend: the first request
  \<open>handleUpload\<close> sends is the upload under that key, whatever the backend holds.
\<close>

theorem C9_storage_key:
  "(uuid_text uid \<longrightarrow> first_folder (filePath uid (name f) now rnd) = Some uid)
   \<and> (name f = stem @ ''.'' @ ext \<and> CHR ''.'' \<notin> set ext \<longrightarrow>
        filePath uid (name f) now rnd =
          uid @ ''/'' @ string_of_nat now @ ''-'' @ substring 7 rnd @ ''.'' @ ext)
   \<and> (selectedFile st = Some f \<longrightarrow>
        take (Suc (length (calls b)))
          (calls (fst (snd (handleUpload (Some u) a env (st, b)))))
        = calls b @ [Storage_upload
            (filePath (id_user u) (name f) (Date_now env) (Math_random_36 env)) f])"
proof (intro conjI impI)
  assume "uuid_text uid"
  then show "first_folder (filePath uid (name f) now rnd) = Some uid"
    by (simp add: first_folder_filePath uuid_text_no_slash)
next
  assume "name f = stem @ ''.'' @ ext \<and> CHR ''.'' \<notin> set ext"
  then show "filePath uid (name f) now rnd =
          uid @ ''/'' @ string_of_nat now @ ''-'' @ substring 7 rnd @ ''.'' @ ext"
    by (simp add: filePath_suffix last_split_on_append)
next
  assume "selectedFile st = Some f"
  then show "take (Suc (length (calls b)))
          (calls (fst (snd (handleUpload (Some u) a env (st, b)))))
        = calls b @ [Storage_upload
            (filePath (id_user u) (name f) (Date_now env) (Math_random_36 env)) f]"
    by (rule handleUpload_first_call)
qed

text \<open>
  Claim C9 at work: Alice's \<open>holiday.tar.gz\<close>.
\<close>

theorem C9_storage_key_witness:
  "uuid_text alice_id
   \<and> first_folder (filePath alice_id (name holiday) 1700000000123 ''0.4fzyo82mvyr'')
       = Some alice_id
   \<and> filePath alice_id (name holiday) 1700000000123 ''0.4fzyo82mvyr''
       = alice_id @ ''/'' @ string_of_nat 1700000000123 @ ''-''
           @ substring 7 ''0.4fzyo82mvyr'' @ ''.'' @ ''gz''"
proof -
  have u: "uuid_text alice_id"
    by code_simp
  have e: "name holiday = ''holiday.tar'' @ ''.'' @ ''gz'' \<and> CHR ''.'' \<notin> set ''gz''"
    by (simp add: holiday_def)
  note t = C9_storage_key [of alice_id holiday 1700000000123 "''0.4fzyo82mvyr''"
      "''holiday.tar''" "''gz''"]
  note a = t [THEN conjunct1, THEN mp, OF u]
  note b = t [THEN conjunct2, THEN conjunct1, THEN mp, OF e]
  from u a b show ?thesis by (intro conjI)
qed

subsection \<open>C10: names without a dot\<close>

text \<open>
  Claim C10. For a display name without a dot, \<open>split('.').pop()\<close> is the whole
  name, so the key ends in a dot followed by the whole display name; and whatever the
  name, the key has a dot.
\<close>

theorem C10_dotless_name:
  "(CHR ''.'' \<notin> set (name f) \<longrightarrow>
      filePath uid (name f) now rnd =
        uid @ ''/'' @ string_of_nat now @ ''-'' @ substring 7 rnd @ ''.'' @ name f)
   \<and> CHR ''.'' \<in> set (filePath uid (name f) now rnd)"
  by (simp add: filePath_suffix split_on_no_sep)

text \<open>
  Claim C10 at work: a file called \<open>README\<close>.
\<close>

theorem C10_dotless_name_witness:
  "CHR ''.'' \<notin> set (name readme)
   \<and> filePath alice_id (name readme) 1700000000123 ''0.4fzyo82mvyr''
       = alice_id @ ''/'' @ string_of_nat 1700000000123 @ ''-''
           @ substring 7 ''0.4fzyo82mvyr'' @ ''.'' @ name readme"
proof -
  have d: "CHR ''.'' \<notin> set (name readme)"
    by (simp add: readme_def)
  note t = C10_dotless_name [of readme alice_id 1700000000123 "''0.4fzyo82mvyr''"]
  note a = t [THEN conjunct1, THEN mp, OF d]
  from d a show ?thesis by (intro conjI)
qed

end
